theory Spec2Isabelle
  imports Complex_Main
begin

section \<open>Numbers\<close>

text \<open>
  The harness computes with Python floats and numpy \<open>float64\<close> values. A finite value is
  modelled by the real number it stands for (rounding is idealised away); \<open>NaN\<close> stands for
  the degenerate value numpy produces from an empty mean or a division \<open>0 / 0\<close>. Every
  operation the program uses propagates it.
\<close>

datatype npfloat = F real | NaN

fun fadd :: "npfloat \<Rightarrow> npfloat \<Rightarrow> npfloat" where
  "fadd (F a) (F b) = F (a + b)"
| "fadd _ _ = NaN"

fun fsub :: "npfloat \<Rightarrow> npfloat \<Rightarrow> npfloat" where
  "fsub (F a) (F b) = F (a - b)"
| "fsub _ _ = NaN"

fun fmul :: "npfloat \<Rightarrow> npfloat \<Rightarrow> npfloat" where
  "fmul (F a) (F b) = F (a * b)"
| "fmul _ _ = NaN"

fun fabs :: "npfloat \<Rightarrow> npfloat" where
  "fabs (F a) = F \<bar>a\<bar>"
| "fabs NaN = NaN"

fun fsquare :: "npfloat \<Rightarrow> npfloat" where
  "fsquare (F a) = F (a * a)"
| "fsquare NaN = NaN"

fun fsqrt :: "npfloat \<Rightarrow> npfloat" where
  "fsqrt (F a) = (if a < 0 then NaN else F (sqrt a))"
| "fsqrt NaN = NaN"

fun fmax :: "npfloat \<Rightarrow> npfloat \<Rightarrow> npfloat" where
  "fmax (F a) (F b) = F (max a b)"
| "fmax _ _ = NaN"

fun fmin :: "npfloat \<Rightarrow> npfloat \<Rightarrow> npfloat" where
  "fmin (F a) (F b) = F (min a b)"
| "fmin _ _ = NaN"

text \<open>numpy's true division of a float by a count: \<open>x / 0\<close> is not an exception there.\<close>

fun fdiv_count :: "npfloat \<Rightarrow> nat \<Rightarrow> npfloat" where
  "fdiv_count (F a) n = (if n = 0 then NaN else F (a / real n))"
| "fdiv_count NaN n = NaN"

text \<open>\<open>x > 0\<close> and \<open>x < 65535\<close> on a float: both are false on \<open>NaN\<close>.\<close>

fun fgt :: "npfloat \<Rightarrow> real \<Rightarrow> bool" where
  "fgt (F a) c = (a > c)"
| "fgt NaN c = False"

fun flt :: "npfloat \<Rightarrow> real \<Rightarrow> bool" where
  "flt (F a) c = (a < c)"
| "flt NaN c = False"

subsection \<open>Exceptions\<close>

text \<open>An exception carries its message, which \<open>str(e)\<close> returns.\<close>

datatype exn = ZeroDivisionError string | ValueError string | Exception string

fun str :: "exn \<Rightarrow> string" where
  "str (ZeroDivisionError m) = m"
| "str (ValueError m) = m"
| "str (Exception m) = m"

definition then_do :: "exn + 'a \<Rightarrow> ('a \<Rightarrow> exn + 'b) \<Rightarrow> exn + 'b" where
  "then_do r f = (case r of Inl e \<Rightarrow> Inl e | Inr v \<Rightarrow> f v)"

text \<open>Python's \<open>a / b\<close> on two ints raises on a zero divisor.\<close>

definition py_truediv :: "int \<Rightarrow> int \<Rightarrow> exn + npfloat" where
  "py_truediv a b =
     (if b = 0 then Inl (ZeroDivisionError ''division by zero'')
      else Inr (F (real_of_int a / real_of_int b)))"

text \<open>Python's \<open>int(x)\<close> on a float truncates towards zero.\<close>

definition py_int :: "real \<Rightarrow> int" where
  "py_int x = (if x < 0 then - \<lfloor>- x\<rfloor> else \<lfloor>x\<rfloor>)"

subsection \<open>numpy reductions\<close>

definition np_sum :: "npfloat list \<Rightarrow> npfloat" where
  "np_sum xs = foldr fadd xs (F 0)"

definition np_mean :: "npfloat list \<Rightarrow> npfloat" where
  "np_mean xs = fdiv_count (np_sum xs) (length xs)"

text \<open>\<open>np.std\<close> is the population standard deviation: \<open>sqrt(mean(abs(x - mean(x))**2))\<close>.\<close>

definition np_std :: "npfloat list \<Rightarrow> npfloat" where
  "np_std xs = (let m = np_mean xs in fsqrt (np_mean (map (\<lambda>x. fsquare (fabs (fsub x m))) xs)))"

text \<open>\<open>np.max\<close> and \<open>np.min\<close> raise \<open>ValueError\<close> on an empty array.\<close>

definition np_max :: "npfloat list \<Rightarrow> exn + npfloat" where
  "np_max xs =
     (case xs of
        [] \<Rightarrow> Inl (ValueError ''zero-size array to reduction operation maximum which has no identity'')
      | x # ys \<Rightarrow> Inr (foldl fmax x ys))"

definition np_min :: "npfloat list \<Rightarrow> exn + npfloat" where
  "np_min xs =
     (case xs of
        [] \<Rightarrow> Inl (ValueError ''zero-size array to reduction operation minimum which has no identity'')
      | x # ys \<Rightarrow> Inr (foldl fmin x ys))"

section \<open>Frames and the validity mask\<close>

text \<open>
  A depth frame is a two-dimensional grid of raw unsigned readings, stored as its list of
  rows (numpy arrays are rectangular: every row has the length of the first).
\<close>

type_synonym frame = "nat list list"

definition shape :: "'a list list \<Rightarrow> nat \<times> nat" where
  "shape a = (length a, case a of [] \<Rightarrow> 0 | r # _ \<Rightarrow> length r)"

text \<open>\<open>(depth_data > 0) & (depth_data < 65535)\<close>\<close>

definition valid_raw :: "nat \<Rightarrow> bool" where
  "valid_raw v = (v > 0 \<and> v < 65535)"

definition valid_mask :: "frame \<Rightarrow> bool list list" where
  "valid_mask depth_data = map (map valid_raw) depth_data"

definition np_any :: "bool list list \<Rightarrow> bool" where
  "np_any m = list_ex (\<lambda>b. b) (concat m)"

definition np_count :: "bool list list \<Rightarrow> nat" where
  "np_count m = length (filter (\<lambda>b. b) (concat m))"

definition np_size :: "'a list list \<Rightarrow> nat" where
  "np_size m = length (concat m)"

text \<open>Boolean indexing \<open>a[mask]\<close>: the entries at the true positions, in row-major order.\<close>

definition masked :: "'a list list \<Rightarrow> bool list list \<Rightarrow> 'a list" where
  "masked a m = map fst (filter snd (zip (concat a) (concat m)))"

text \<open>\<open>np.where(mask)\<close>: the (row, column) positions of the true entries, in row-major order.\<close>

definition row_coords :: "bool list list \<Rightarrow> nat \<Rightarrow> (nat \<times> nat) list" where
  "row_coords m y = map (\<lambda>x. (y, x)) (filter (\<lambda>x. m ! y ! x) [0..<length (m ! y)])"

definition np_where :: "bool list list \<Rightarrow> (nat \<times> nat) list" where
  "np_where m = concat (map (row_coords m) [0..<length m])"

text \<open>\<open>astype(np.float64)\<close>\<close>

definition astype_float :: "nat list \<Rightarrow> npfloat list" where
  "astype_float vs = map (\<lambda>v. F (real v)) vs"

section \<open>The device, the clock and the tester\<close>

datatype stream_id = PERCIPIO_STREAM_DEPTH | PERCIPIO_STREAM_OTHER

record sdk_frame =
  streamID :: stream_id
  as_nparray :: frame

text \<open>
  One answer of \<open>DeviceStreamRead\<close>: the time the call took, and either the exception it
  raised or the frames it returned.
\<close>

record sdk_reply =
  latency :: real
  reply :: "exn + sdk_frame list"

record device =
  dev_id :: string
  modelName :: string
  ip :: "string option"
  sn :: "string option"

text \<open>
  Everything outside the process: the wall clock, the devices on the bus, what the driver
  answers to each call, and the random generator behind \<open>np.random.choice\<close>.
  When the scripted answers of \<open>DeviceStreamRead\<close> run out the driver times out: the call
  takes its five seconds and returns no frame.
\<close>

record world =
  now :: real
  dev_list :: "device list"
  open_valid :: bool
  scale_unit :: "exn + real"
  stream_enable_status :: int
  stream_on_status :: int
  pending :: "sdk_reply list"
  random_choice :: "nat \<Rightarrow> nat \<Rightarrow> nat list"

definition TY_STATUS_OK :: int where
  "TY_STATUS_OK = 0"

definition sleep :: "real \<Rightarrow> world \<Rightarrow> world" where
  "sleep d w = w\<lparr>now := now w + d\<rparr>"

definition DeviceStreamRead :: "world \<Rightarrow> (exn + sdk_frame list) \<times> world" where
  "DeviceStreamRead w =
     (case pending w of
        [] \<Rightarrow> (Inr [], w\<lparr>now := now w + 5\<rparr>)
      | r # rs \<Rightarrow> (reply r, w\<lparr>now := now w + latency r, pending := rs\<rparr>))"

record test_params =
  frame_rate_test_duration :: real
  repeatability_test_count :: int
  stability_test_duration :: real
  noise_test_count :: int

subsection \<open>Result data\<close>

text \<open>
  The messages of the four error dictionaries \<open>{'error': ...}\<close>, in the order of the source:
  no initial depth image; no valid depth region found; not enough valid test point data;
  not enough valid data to analyse the noise.
\<close>

datatype error_text =
  NoInitialDepthImage | NoValidDepthRegion | NotEnoughPointData | NotEnoughNoiseData

record device_info =
  info_id :: string
  info_modelName :: string
  info_ip :: string
  info_sn :: string

record single_capture =
  has_depth :: bool
  depth_shape :: "nat \<times> nat"

record depth_stats =
  valid_pixels :: nat
  total_pixels :: nat
  valid_ratio :: npfloat
  min_depth :: npfloat
  max_depth :: npfloat
  mean_depth :: npfloat
  std_depth :: npfloat

record basic_data =
  device_info :: "device_info option"
  single_capture :: "single_capture option"
  depth_stats :: "depth_stats option"

record frame_rate_data =
  fr_duration :: real
  fr_total_attempts :: nat
  fr_successful_captures :: nat
  fr_success_rate :: npfloat
  fps :: npfloat
  fps_filtered :: npfloat
  avg_frame_time :: npfloat
  std_frame_time :: npfloat
  min_frame_time :: npfloat
  max_frame_time :: npfloat
  frame_times :: "real list"

record point_stats =
  point_id :: nat
  coordinates :: "nat \<times> nat"
  measurement_count :: nat
  pt_mean_depth :: npfloat
  pt_std_depth :: npfloat
  pt_max_depth_deviation :: npfloat
  pt_depth_range :: npfloat

record overall_stats =
  mean_depth_std :: npfloat
  std_depth_std :: npfloat
  max_depth_std :: npfloat
  mean_depth_deviation :: npfloat
  std_depth_deviation :: npfloat
  max_depth_deviation :: npfloat
  mean_depth_range :: npfloat
  std_depth_range :: npfloat

record repeatability_data =
  rp_test_count :: int
  rp_success_count :: nat
  rp_success_rate :: npfloat
  rp_target_points :: nat
  rp_valid_points :: nat
  rp_overall_stats :: overall_stats
  rp_point_analysis :: "point_stats list"
  rp_test_point_coordinates :: "(nat \<times> nat) list"
  rp_raw_depth_data :: "npfloat list list"

record measurement =
  timestamp :: real
  m_valid_pixels :: nat
  m_total_pixels :: nat
  m_valid_ratio :: npfloat
  m_mean_depth :: npfloat
  m_std_depth :: npfloat
  m_min_depth :: npfloat
  m_max_depth :: npfloat

record stability_metrics =
  valid_pixels_mean :: npfloat
  valid_pixels_std :: npfloat
  mean_depth_mean :: npfloat
  mean_depth_std_t :: npfloat

record stability_data =
  st_duration :: real
  st_total_measurements :: nat
  st_success_rate :: npfloat
  st_stability_metrics :: "stability_metrics option"
  st_measurements :: "measurement list"

record noise_data =
  ns_test_count :: int
  ns_success_count :: nat
  ns_success_rate :: npfloat
  ns_noise_mean :: npfloat
  ns_noise_std :: npfloat
  ns_noise_max :: npfloat
  ns_mean_depth_shape :: "nat \<times> nat"
  ns_valid_pixels_ratio :: npfloat

text \<open>What a procedure returns: one of the dictionaries above (\<open>EmptyDict\<close> is \<open>{}\<close>).\<close>

datatype test_data =
  EmptyDict
| ErrorDict error_text
| BasicDict basic_data
| FrameRateDict frame_rate_data
| RepeatabilityDict repeatability_data
| StabilityDict stability_data
| NoiseDict noise_data

datatype test_name =
  BasicTest | FrameRateTest | RepeatabilityTest | StabilityTest | NoiseTest

record TestResult =
  test_name :: test_name
  success :: bool
  data :: test_data
  error_message :: "string option"
  execution_time :: real

record tester =
  device_id :: string
  is_connected :: bool
  test_results :: "TestResult list"
  depth_scale_factor :: "real option"
  params :: test_params

text \<open>A test procedure: it may raise or return its dictionary, and it moves the world on.\<close>

type_synonym procedure = "tester \<Rightarrow> world \<Rightarrow> (exn + test_data) \<times> world"

section \<open>Capturing a frame\<close>

definition capture_single_frame :: "tester \<Rightarrow> world \<Rightarrow> frame option \<times> world" where
  "capture_single_frame self w =
     (if \<not> is_connected self then (None, w)
      else
        (case DeviceStreamRead w of
           (Inl e, w') \<Rightarrow> (None, w')
         | (Inr frames, w') \<Rightarrow>
             (if length frames = 0 then (None, w')
              else
                (case find (\<lambda>frame. streamID frame = PERCIPIO_STREAM_DEPTH) frames of
                   Some frame \<Rightarrow> (Some (as_nparray frame), w')
                 | None \<Rightarrow> (None, w')))))"

section \<open>The harness\<close>

definition run_test :: "procedure \<Rightarrow> test_name \<Rightarrow> tester \<Rightarrow> world \<Rightarrow> TestResult \<times> tester \<times> world" where
  "run_test test_func name self w =
     (let start_time = now w;
          result = \<lparr>test_name = name, success = False, data = EmptyDict,
                    error_message = None, execution_time = 0\<rparr>;
          (outcome, w') = test_func self w;
          result = (case outcome of
                      Inr d \<Rightarrow> result\<lparr>data := d, success := True\<rparr>
                    | Inl e \<Rightarrow> result\<lparr>error_message := Some (str e)\<rparr>);
          result = result\<lparr>execution_time := now w' - start_time\<rparr>
      in (result, self\<lparr>test_results := test_results self @ [result]\<rparr>, w'))"


subsection \<open>Connecting\<close>

text \<open>
  \<open>setup_camera\<close>: list the devices, open the configured one, read the scale factor (the
  default \<open>0.016\<close> when the read raises), enable the depth stream and start it.
\<close>

definition setup_camera :: "tester \<Rightarrow> world \<Rightarrow> bool \<times> tester \<times> world" where
  "setup_camera self w =
     (if length (dev_list w) = 0 then (False, self, w)
      else if \<not> open_valid w then (False, self, w)
      else
        (let self = self\<lparr>is_connected := True\<rparr>;
             self = self\<lparr>depth_scale_factor :=
                      Some (case scale_unit w of Inr s \<Rightarrow> s | Inl e \<Rightarrow> 0.016)\<rparr>
         in if stream_enable_status w \<noteq> TY_STATUS_OK then (False, self, w)
            else if stream_on_status w \<noteq> TY_STATUS_OK then (False, self, w)
            else (True, self, sleep 2 w)))"

subsection \<open>Running all tests\<close>

text \<open>
  The five test methods of the tester. \<open>run_all_tests\<close> calls them through \<open>self\<close>, so
  they are a parameter of the harness: any of them can be replaced by one that raises.
\<close>

record methods =
  m_basic_functionality :: procedure
  m_frame_rate :: procedure
  m_repeatability :: procedure
  m_stability :: procedure
  m_noise :: procedure

definition run_all_tests :: "methods \<Rightarrow> tester \<Rightarrow> world \<Rightarrow> TestResult list \<times> tester \<times> world" where
  "run_all_tests ms self w =
     (let (ok, self, w) = setup_camera self w in
      if \<not> ok then ([], self, w)
      else
        (let (self, w) = snd (run_test (m_basic_functionality ms) BasicTest self w);
             (self, w) = (if frame_rate_test_duration (params self) > 0
                          then snd (run_test (m_frame_rate ms) FrameRateTest self w)
                          else (self, w));
             (self, w) = snd (run_test (m_repeatability ms) RepeatabilityTest self w);
             (self, w) = (if stability_test_duration (params self) > 0
                          then snd (run_test (m_stability ms) StabilityTest self w)
                          else (self, w));
             (self, w) = (if noise_test_count (params self) > 0
                          then snd (run_test (m_noise ms) NoiseTest self w)
                          else (self, w))
         in (test_results self, self, w)))"

subsection \<open>The harness contract, in the words of the specification\<close>

text \<open>
  The configured, ordered list of (procedure, enable-condition) pairs: frame rate, stability
  and noise are skipped when their duration or count is not positive.
\<close>

definition enabled_procedures :: "methods \<Rightarrow> test_params \<Rightarrow> (test_name \<times> procedure) list" where
  "enabled_procedures ms p =
     [(BasicTest, m_basic_functionality ms)]
     @ (if frame_rate_test_duration p > 0 then [(FrameRateTest, m_frame_rate ms)] else [])
     @ [(RepeatabilityTest, m_repeatability ms)]
     @ (if stability_test_duration p > 0 then [(StabilityTest, m_stability ms)] else [])
     @ (if noise_test_count p > 0 then [(NoiseTest, m_noise ms)] else [])"

text \<open>Running a list of procedures one after the other through \<open>run_test\<close>.\<close>

fun run_procs :: "(test_name \<times> procedure) list \<Rightarrow> tester \<Rightarrow> world \<Rightarrow> tester \<times> world" where
  "run_procs [] self w = (self, w)"
| "run_procs ((n, p) # ps) self w =
     (case run_test p n self w of (r, self', w') \<Rightarrow> run_procs ps self' w')"

text \<open>The results such a run appends, and what each procedure did when its turn came.\<close>

fun new_results :: "(test_name \<times> procedure) list \<Rightarrow> tester \<Rightarrow> world \<Rightarrow> TestResult list" where
  "new_results [] self w = []"
| "new_results ((n, p) # ps) self w =
     (case run_test p n self w of (r, self', w') \<Rightarrow> r # new_results ps self' w')"

fun outcomes :: "(test_name \<times> procedure) list \<Rightarrow> tester \<Rightarrow> world \<Rightarrow> (exn + test_data) list" where
  "outcomes [] self w = []"
| "outcomes ((n, p) # ps) self w =
     (case run_test p n self w of (r, self', w') \<Rightarrow> fst (p self w) # outcomes ps self' w')"

text \<open>The invariant of a test result.\<close>

definition result_ok :: "TestResult \<Rightarrow> bool" where
  "result_ok r =
     ((\<not> success r \<longrightarrow> data r = EmptyDict \<and> error_message r \<noteq> None)
      \<and> (success r \<longrightarrow> error_message r = None))"

section \<open>The test procedures\<close>

text \<open>
  Raw depth to millimetres: the session's scale factor, or the default \<open>0.016\<close> when
  none was read.
\<close>

definition to_mm :: "tester \<Rightarrow> npfloat \<Rightarrow> npfloat" where
  "to_mm self x =
     (case depth_scale_factor self of
        Some s \<Rightarrow> fmul x (F s)
      | None \<Rightarrow> fmul x (F 0.016))"

subsection \<open>Basic functionality\<close>

text \<open>
  The dictionary starts with its three entries at \<open>None\<close>; the device entry is filled from
  the first listed device with the configured id; one frame is captured, and its statistics
  are computed only when some pixel is valid. (The element type's name, a string the driver
  decides, is left out of \<open>single_capture\<close>.)
\<close>

definition test_basic_functionality :: procedure where
  "test_basic_functionality self w =
     (let info =
            (case find (\<lambda>dev. dev_id dev = device_id self) (dev_list w) of
               Some dev \<Rightarrow>
                 Some \<lparr>info_id = dev_id dev, info_modelName = modelName dev,
                       info_ip = (case ip dev of Some a \<Rightarrow> a | None \<Rightarrow> ''Unknown''),
                       info_sn = (case sn dev of Some a \<Rightarrow> a | None \<Rightarrow> ''Unknown'')\<rparr>
             | None \<Rightarrow> None);
          (depth, w') = capture_single_frame self w
      in case depth of
           None \<Rightarrow>
             (Inr (BasicDict \<lparr>device_info = info, single_capture = None, depth_stats = None\<rparr>), w')
         | Some depth_data \<Rightarrow>
             (let capture = Some \<lparr>has_depth = True, depth_shape = shape depth_data\<rparr>;
                  vmask = valid_mask depth_data
              in if np_any vmask then
                   (let valid_depths = astype_float (masked depth_data vmask);
                        valid_depths_mm = map (to_mm self) valid_depths
                    in (then_do (np_min valid_depths_mm) (\<lambda>lo.
                        then_do (np_max valid_depths_mm) (\<lambda>hi.
                        Inr (BasicDict
                          \<lparr>device_info = info, single_capture = capture,
                           depth_stats = Some
                             \<lparr>valid_pixels = np_count vmask,
                              total_pixels = np_size vmask,
                              valid_ratio = fdiv_count (F (real (np_count vmask))) (np_size vmask),
                              min_depth = lo,
                              max_depth = hi,
                              mean_depth = np_mean valid_depths_mm,
                              std_depth = np_std valid_depths_mm\<rparr>\<rparr>))), w'))
                 else
                   (Inr (BasicDict \<lparr>device_info = info, single_capture = capture,
                                    depth_stats = None\<rparr>), w')))"

subsection \<open>Repeatability\<close>


definition select_points :: "world \<Rightarrow> bool list list \<Rightarrow> (nat \<times> nat) list \<times> nat" where
  "select_points w vmask =
     (let target_points = 25;
          valid_coords = np_where vmask
      in if length valid_coords \<ge> target_points then
           (let indices = random_choice w (length valid_coords) target_points
            in (map (\<lambda>i. valid_coords ! i) indices, target_points))
         else (valid_coords, length valid_coords))"

text \<open>One point of one frame: its sample is appended when it lies in the frame and is valid.\<close>

definition record_point :: "tester \<Rightarrow> frame \<Rightarrow> nat \<times> nat \<Rightarrow> npfloat list \<Rightarrow> npfloat list" where
  "record_point self depth_data c samples =
     (case c of (y, x) \<Rightarrow>
        if y < fst (shape depth_data) \<and> x < snd (shape depth_data) then
          (let depth_value = depth_data ! y ! x
           in if depth_value > 0 \<and> depth_value < 65535
              then samples @ [to_mm self (F (real depth_value))]
              else samples)
        else samples)"

text \<open>
  The acquisition loop \<open>for i in range(count)\<close>: wait a second, capture, and on a frame
  record every test point and count the success. The state is the per-point sample lists
  and the success count.
\<close>

fun repeatability_loop ::
  "tester \<Rightarrow> (nat \<times> nat) list \<Rightarrow> nat \<Rightarrow> nat \<Rightarrow> npfloat list list \<times> nat \<Rightarrow> world
     \<Rightarrow> (npfloat list list \<times> nat) \<times> world" where
  "repeatability_loop self coords target_points 0 acc w = (acc, w)"
| "repeatability_loop self coords target_points (Suc n) (point_data, success_count) w =
     (case capture_single_frame self (sleep 1 w) of
        (Some depth_data, w') \<Rightarrow>
          repeatability_loop self coords target_points n
            (map (\<lambda>j. record_point self depth_data (coords ! j) (point_data ! j))
                 [0..<target_points],
             success_count + 1) w'
      | (None, w') \<Rightarrow>
          repeatability_loop self coords target_points n (point_data, success_count) w')"

text \<open>
  The analysis of point \<open>i\<close>: nothing for fewer than two samples, and nothing when a
  reduction raises (the source catches it and goes on to the next point).
\<close>

definition analyse_point :: "(nat \<times> nat) list \<Rightarrow> npfloat list list \<Rightarrow> nat \<Rightarrow> point_stats option" where
  "analyse_point coords point_data i =
     (if length (point_data ! i) \<ge> 2 then
        (let depths = point_data ! i;
             mean_d = np_mean depths;
             std_d = np_std depths
         in case then_do (np_max (map (\<lambda>d. fabs (fsub d mean_d)) depths)) (\<lambda>dev.
                 then_do (np_max depths) (\<lambda>hi.
                 then_do (np_min depths) (\<lambda>lo. Inr (dev, fsub hi lo)))) of
              Inr (dev, rng) \<Rightarrow>
                Some \<lparr>point_id = i,
                      coordinates = (snd (coords ! i), fst (coords ! i)),
                      measurement_count = length depths,
                      pt_mean_depth = mean_d,
                      pt_std_depth = std_d,
                      pt_max_depth_deviation = dev,
                      pt_depth_range = rng\<rparr>
            | Inl e \<Rightarrow> None)
      else None)"

definition analyse_points :: "(nat \<times> nat) list \<Rightarrow> nat \<Rightarrow> npfloat list list \<Rightarrow> point_stats list" where
  "analyse_points coords target_points point_data =
     List.map_filter (analyse_point coords point_data) [0..<target_points]"

definition overall_statistics :: "point_stats list \<Rightarrow> exn + overall_stats" where
  "overall_statistics analysis =
     (let all_depth_stds = map pt_std_depth analysis;
          all_depth_deviations = map pt_max_depth_deviation analysis;
          all_depth_ranges = map pt_depth_range analysis
      in then_do (np_max all_depth_stds) (\<lambda>max_std.
         then_do (np_max all_depth_deviations) (\<lambda>max_dev.
         Inr \<lparr>mean_depth_std = np_mean all_depth_stds,
              std_depth_std = np_std all_depth_stds,
              max_depth_std = max_std,
              mean_depth_deviation = np_mean all_depth_deviations,
              std_depth_deviation = np_std all_depth_deviations,
              max_depth_deviation = max_dev,
              mean_depth_range = np_mean all_depth_ranges,
              std_depth_range = np_std all_depth_ranges\<rparr>)))"

text \<open>
  The acquisition phase of the procedure: the seed frame, the choice of points, the loop.
  It ends early with an error dictionary when there is no seed frame or no valid pixel.
\<close>

definition repeatability_acquire ::
  "tester \<Rightarrow> world \<Rightarrow> (error_text + (nat \<times> nat) list \<times> nat \<times> npfloat list list \<times> nat) \<times> world" where
  "repeatability_acquire self w =
     (let count = repeatability_test_count (params self)
      in case capture_single_frame self w of
           (None, w1) \<Rightarrow> (Inl NoInitialDepthImage, w1)
         | (Some initial_depth, w1) \<Rightarrow>
             (let vmask = valid_mask initial_depth
              in if \<not> np_any vmask then (Inl NoValidDepthRegion, w1)
                 else
                   (let (coords, target_points) = select_points w1 vmask;
                        point_data = replicate target_points [];
                        ((point_data, success_count), w2) =
                           repeatability_loop self coords target_points (nat count)
                             (point_data, 0) w1
                    in (Inr (coords, target_points, point_data, success_count), w2))))"

definition test_repeatability :: procedure where
  "test_repeatability self w =
     (let count = repeatability_test_count (params self)
      in case repeatability_acquire self w of
           (Inl msg, w') \<Rightarrow> (Inr (ErrorDict msg), w')
         | (Inr (coords, target_points, point_data, success_count), w') \<Rightarrow>
             (let analysis = analyse_points coords target_points point_data;
                  n_valid = length analysis
              in if n_valid = 0 then (Inr (ErrorDict NotEnoughPointData), w')
                 else
                   (then_do (overall_statistics analysis) (\<lambda>stats.
                    then_do (py_truediv (int success_count) count) (\<lambda>rate.
                    Inr (RepeatabilityDict
                      \<lparr>rp_test_count = count,
                       rp_success_count = success_count,
                       rp_success_rate = rate,
                       rp_target_points = target_points,
                       rp_valid_points = n_valid,
                       rp_overall_stats = stats,
                       rp_point_analysis = analysis,
                       rp_test_point_coordinates =
                         map (\<lambda>i. (snd (coords ! i), fst (coords ! i))) [0..<target_points],
                       rp_raw_depth_data = point_data\<rparr>))), w')))"

subsection \<open>Stability\<close>

text \<open>The measurement taken from one frame that has a valid region.\<close>

definition stability_measurement ::
  "tester \<Rightarrow> real \<Rightarrow> world \<Rightarrow> frame \<Rightarrow> bool list list \<Rightarrow> exn + measurement" where
  "stability_measurement self start_time w depth_data vmask =
     (let valid_depths = astype_float (masked depth_data vmask)
      in then_do (np_min valid_depths) (\<lambda>lo.
         then_do (np_max valid_depths) (\<lambda>hi.
         Inr \<lparr>timestamp = now w - start_time,
              m_valid_pixels = np_count vmask,
              m_total_pixels = np_size vmask,
              m_valid_ratio = fdiv_count (F (real (np_count vmask))) (np_size vmask),
              m_mean_depth = to_mm self (np_mean valid_depths),
              m_std_depth = to_mm self (np_std valid_depths),
              m_min_depth = to_mm self lo,
              m_max_depth = to_mm self hi\<rparr>)))"

text \<open>
  One pass through the body of the loop: capture, measure when the frame has a valid
  region, then sleep off what is left of the one-second interval.
\<close>

definition stability_step ::
  "tester \<Rightarrow> real \<Rightarrow> measurement list \<Rightarrow> world \<Rightarrow> (exn + measurement list) \<times> world" where
  "stability_step self start_time ms w =
     (let interval = 1;
          test_start = now w
      in case capture_single_frame self w of
           (depth, w1) \<Rightarrow>
             (case (case depth of
                      Some depth_data \<Rightarrow>
                        (let vmask = valid_mask depth_data
                         in if np_any vmask
                            then then_do (stability_measurement self start_time w1 depth_data vmask)
                                   (\<lambda>m. Inr (ms @ [m]))
                            else Inr ms)
                    | None \<Rightarrow> Inr ms) of
                Inl e \<Rightarrow> (Inl e, w1)
              | Inr ms' \<Rightarrow>
                  (let elapsed = now w1 - test_start
                   in (Inr ms',
                       if elapsed < interval then sleep (interval - elapsed) w1 else w1))))"

text \<open>
  \<open>while time.time() - start_time < duration\<close>. Every pass ends at least one second
  after it began, whatever the capture took, so the loop ends.
\<close>

function stability_loop ::
  "tester \<Rightarrow> real \<Rightarrow> real \<Rightarrow> measurement list \<Rightarrow> world \<Rightarrow> (exn + measurement list) \<times> world" where
  "stability_loop self start_time duration ms w =
     (if now w - start_time < duration then
        (case stability_step self start_time ms w of
           (Inl e, w') \<Rightarrow> (Inl e, w')
         | (Inr ms', w') \<Rightarrow> stability_loop self start_time duration ms' w')
      else (Inr ms, w))"
  by pat_completeness auto
termination
  apply (relation "measure (\<lambda>(self, start_time, duration, ms, w).
                              nat \<lceil>duration - (now w - start_time)\<rceil>)")
   apply simp
  apply (simp add: stability_step_def Let_def sleep_def
               split: prod.splits sum.splits option.splits if_splits)
       apply linarith+
  done

definition test_stability :: procedure where
  "test_stability self w =
     (let duration = stability_test_duration (params self);
          interval = 1;
          start_time = now w
      in case stability_loop self start_time duration [] w of
           (Inl e, w') \<Rightarrow> (Inl e, w')
         | (Inr ms, w') \<Rightarrow>
             (if ms \<noteq> [] then
                (then_do (py_truediv (int (length ms)) (py_int (duration / interval))) (\<lambda>rate.
                 (let valid_pixels_counts = map (\<lambda>m. F (real (m_valid_pixels m))) ms;
                      mean_depths = map m_mean_depth ms
                  in Inr (StabilityDict
                       \<lparr>st_duration = duration,
                        st_total_measurements = length ms,
                        st_success_rate = rate,
                        st_stability_metrics = Some
                          \<lparr>valid_pixels_mean = np_mean valid_pixels_counts,
                           valid_pixels_std = np_std valid_pixels_counts,
                           mean_depth_mean = np_mean mean_depths,
                           mean_depth_std_t = np_std mean_depths\<rparr>,
                        st_measurements = take 50 ms\<rparr>))), w')
              else
                (Inr (StabilityDict
                   \<lparr>st_duration = duration,
                    st_total_measurements = length ms,
                    st_success_rate = F 0,
                    st_stability_metrics = None,
                    st_measurements = take 50 ms\<rparr>), w')))"

subsection \<open>Noise\<close>

text \<open>
  The acquisition loop \<open>for i in range(count)\<close>: each captured frame is converted to
  \<open>float64\<close> and kept; half a second of sleep follows a success.
\<close>

fun noise_loop ::
  "tester \<Rightarrow> nat \<Rightarrow> npfloat list list list \<times> nat \<Rightarrow> world
     \<Rightarrow> (npfloat list list list \<times> nat) \<times> world" where
  "noise_loop self 0 acc w = (acc, w)"
| "noise_loop self (Suc n) (depth_maps, success_count) w =
     (case capture_single_frame self w of
        (Some depth_data, w') \<Rightarrow>
          noise_loop self n (depth_maps @ [map astype_float depth_data], success_count + 1)
            (sleep 0.5 w')
      | (None, w') \<Rightarrow> noise_loop self n (depth_maps, success_count) w')"

text \<open>\<open>np.array(depth_maps)\<close> raises when the frames do not all have one shape.\<close>

definition np_array :: "npfloat list list list \<Rightarrow> exn + npfloat list list list" where
  "np_array maps =
     (if list_all (\<lambda>m. shape m = shape (hd maps)) maps then Inr maps
      else Inl (ValueError ''setting an array element with a sequence''))"

text \<open>A reduction along axis 0 of the stack: pixel by pixel, across the frames.\<close>

definition along_axis0 :: "(npfloat list \<Rightarrow> npfloat) \<Rightarrow> npfloat list list list \<Rightarrow> npfloat list list" where
  "along_axis0 f maps =
     (case shape (hd maps) of
        (h, wd) \<Rightarrow> map (\<lambda>y. map (\<lambda>x. f (map (\<lambda>m. m ! y ! x) maps)) [0..<wd]) [0..<h])"

text \<open>\<open>(mean_depth > 0) & (mean_depth < 65535)\<close>\<close>

definition valid_mean_mask :: "npfloat list list \<Rightarrow> bool list list" where
  "valid_mean_mask mean_d = map (map (\<lambda>v. fgt v 0 \<and> flt v 65535)) mean_d"

definition noise_acquire :: "tester \<Rightarrow> world \<Rightarrow> (npfloat list list list \<times> nat) \<times> world" where
  "noise_acquire self w =
     noise_loop self (nat (noise_test_count (params self))) ([], 0) w"

definition test_noise :: procedure where
  "test_noise self w =
     (let count = noise_test_count (params self)
      in case noise_acquire self w of
           ((depth_maps, success_count), w') \<Rightarrow>
             (if length depth_maps < 2 then (Inr (ErrorDict NotEnoughNoiseData), w')
              else
                (then_do (np_array depth_maps) (\<lambda>depth_maps.
                 (let mean_d = along_axis0 np_mean depth_maps;
                      std_d = along_axis0 np_std depth_maps;
                      vmask = valid_mean_mask mean_d
                  in then_do
                       (if np_any vmask then
                          then_do (np_max (masked std_d vmask)) (\<lambda>hi.
                            Inr (to_mm self (np_mean (masked std_d vmask)),
                                 to_mm self (np_std (masked std_d vmask)),
                                 to_mm self hi))
                        else Inr (F 0, F 0, F 0))
                       (\<lambda>(n_mean, n_std, n_max).
                          then_do (py_truediv (int success_count) count) (\<lambda>rate.
                          Inr (NoiseDict
                            \<lparr>ns_test_count = count,
                             ns_success_count = success_count,
                             ns_success_rate = rate,
                             ns_noise_mean = n_mean,
                             ns_noise_std = n_std,
                             ns_noise_max = n_max,
                             ns_mean_depth_shape = shape mean_d,
                             ns_valid_pixels_ratio =
                               (if np_size vmask > 0
                                then fdiv_count (F (real (np_count vmask))) (np_size vmask)
                                else F 0)\<rparr>))))), w')))"

subsection \<open>The tester's own methods\<close>

text \<open>
  The frame-rate procedure measures nothing but wall-clock time; it stays a parameter.
\<close>

definition percipio_methods :: "procedure \<Rightarrow> methods" where
  "percipio_methods test_frame_rate =
     \<lparr>m_basic_functionality = test_basic_functionality,
      m_frame_rate = test_frame_rate,
      m_repeatability = test_repeatability,
      m_stability = test_stability,
      m_noise = test_noise\<rparr>"

section \<open>Bench fixtures\<close>

text \<open>
  A tester as \<open>__init__\<close> leaves it, a tester that is already connected with a known
  scale factor, and a world with one device whose driver answers from a script and whose
  random generator picks the first indices.
\<close>

definition new_tester :: "test_params \<Rightarrow> tester" where
  "new_tester p =
     \<lparr>device_id = ''207000159351'', is_connected = False, test_results = [],
      depth_scale_factor = None, params = p\<rparr>"

definition connected_tester :: "real \<Rightarrow> test_params \<Rightarrow> tester" where
  "connected_tester s p =
     \<lparr>device_id = ''207000159351'', is_connected = True, test_results = [],
      depth_scale_factor = Some s, params = p\<rparr>"

definition depth_reply :: "frame \<Rightarrow> sdk_reply" where
  "depth_reply f =
     \<lparr>latency = 0, reply = Inr [\<lparr>streamID = PERCIPIO_STREAM_DEPTH, as_nparray = f\<rparr>]\<rparr>"

definition bench_world :: "real \<Rightarrow> sdk_reply list \<Rightarrow> world" where
  "bench_world s replies =
     \<lparr>now = 0,
      dev_list = [\<lparr>dev_id = ''207000159351'', modelName = ''FM851'', ip = None, sn = None\<rparr>],
      open_valid = True, scale_unit = Inr s, stream_enable_status = 0, stream_on_status = 0,
      pending = replies, random_choice = (\<lambda>n k. [0..<k])\<rparr>"

definition quick_params :: test_params where
  "quick_params =
     \<lparr>frame_rate_test_duration = 0, repeatability_test_count = 4,
      stability_test_duration = 2, noise_test_count = 2\<rparr>"

definition returns_empty :: procedure where
  "returns_empty self w = (Inr EmptyDict, w)"

definition raises_boom :: procedure where
  "raises_boom self w = (Inl (Exception ''boom''), w)"

definition one_raising :: methods where
  "one_raising =
     \<lparr>m_basic_functionality = returns_empty, m_frame_rate = returns_empty,
      m_repeatability = raises_boom, m_stability = returns_empty, m_noise = returns_empty\<rparr>"

text \<open>The frame of the basic-sanity scenario: four rows of four pixels, all at 1000.\<close>

definition frame_4x4_1000 :: frame where
  "frame_4x4_1000 =
     [[1000, 1000, 1000, 1000], [1000, 1000, 1000, 1000],
      [1000, 1000, 1000, 1000], [1000, 1000, 1000, 1000]]"

section \<open>Statistics, in mathematical terms\<close>

text \<open>
  The scale factor in force, and the statistics the specification names, on plain lists of
  reals: mean, population standard deviation, largest absolute deviation from the mean,
  and range.
\<close>

definition scale_of :: "tester \<Rightarrow> real" where
  "scale_of self = (case depth_scale_factor self of Some s \<Rightarrow> s | None \<Rightarrow> 0.016)"

definition mean :: "real list \<Rightarrow> real" where
  "mean xs = sum_list xs / real (length xs)"

definition std_dev :: "real list \<Rightarrow> real" where
  "std_dev xs = sqrt (mean (map (\<lambda>x. (x - mean xs)\<^sup>2) xs))"

definition max_abs_deviation :: "real list \<Rightarrow> real" where
  "max_abs_deviation xs = Max (set (map (\<lambda>x. \<bar>x - mean xs\<bar>) xs))"

definition spread :: "real list \<Rightarrow> real" where
  "spread xs = Max (set xs) - Min (set xs)"

text \<open>The analysis entry of point \<open>i\<close> with the (finite) samples \<open>rs\<close>, in those terms.\<close>

definition point_entry :: "(nat \<times> nat) list \<Rightarrow> nat \<Rightarrow> real list \<Rightarrow> point_stats" where
  "point_entry coords i rs =
     \<lparr>point_id = i, coordinates = (snd (coords ! i), fst (coords ! i)),
      measurement_count = length rs, pt_mean_depth = F (mean rs), pt_std_depth = F (std_dev rs),
      pt_max_depth_deviation = F (max_abs_deviation rs), pt_depth_range = F (spread rs)\<rparr>"

text \<open>The eight aggregate values of \<open>overall_stats\<close>, in the order of the source.\<close>

definition overall_values :: "overall_stats \<Rightarrow> npfloat list" where
  "overall_values s =
     [mean_depth_std s, std_depth_std s, max_depth_std s,
      mean_depth_deviation s, std_depth_deviation s, max_depth_deviation s,
      mean_depth_range s, std_depth_range s]"

text \<open>A numpy array is rectangular: every row has the length the shape gives.\<close>

definition rectangular :: "'a list list \<Rightarrow> bool" where
  "rectangular a = (\<forall>r \<in> set a. length r = snd (shape a))"

section \<open>Facts about the numeric layer\<close>

lemma np_sum_F: "np_sum (map F rs) = F (sum_list rs)"
  by (induction rs) (simp_all add: np_sum_def)

lemma np_mean_F: "rs \<noteq> [] \<Longrightarrow> np_mean (map F rs) = F (sum_list rs / real (length rs))"
  by (simp add: np_mean_def np_sum_F)

lemma np_std_F:
  "rs \<noteq> [] \<Longrightarrow>
     np_std (map F rs) =
       F (sqrt (sum_list (map (\<lambda>x. (x - sum_list rs / real (length rs))\<^sup>2) rs) / real (length rs)))"
proof -
  assume ne: "rs \<noteq> []"
  let ?m = "sum_list rs / real (length rs)"
  have "map (\<lambda>x. fsquare (fabs (fsub x (F ?m)))) (map F rs) = map F (map (\<lambda>x. (x - ?m)\<^sup>2) rs)"
    by (simp add: power2_eq_square)
  moreover have "0 \<le> sum_list (map (\<lambda>x. (x - ?m)\<^sup>2) rs) / real (length rs)"
    by (intro divide_nonneg_nonneg sum_list_nonneg) auto
  ultimately show ?thesis
    using ne by (simp add: np_std_def np_mean_F Let_def del: map_map)
qed

lemma foldl_fmax_F: "foldl fmax (F a) (map F rs) = F (Max (set (a # rs)))"
proof -
  have "foldl fmax (F a) (map F rs) = F (fold max rs a)"
    by (induction rs arbitrary: a) (simp_all add: max.commute min.commute)
  then show ?thesis by (simp only: Max.set_eq_fold)
qed

lemma foldl_fmin_F: "foldl fmin (F a) (map F rs) = F (Min (set (a # rs)))"
proof -
  have "foldl fmin (F a) (map F rs) = F (fold min rs a)"
    by (induction rs arbitrary: a) (simp_all add: max.commute min.commute)
  then show ?thesis by (simp only: Min.set_eq_fold)
qed

lemma np_max_F: "rs \<noteq> [] \<Longrightarrow> np_max (map F rs) = Inr (F (Max (set rs)))"
  by (cases rs) (simp_all add: np_max_def foldl_fmax_F del: Max.set_eq_fold set_simps)

lemma np_min_F: "rs \<noteq> [] \<Longrightarrow> np_min (map F rs) = Inr (F (Min (set rs)))"
  by (cases rs) (simp_all add: np_min_def foldl_fmin_F del: set_simps)

lemma masked_valid: "masked f (valid_mask f) = filter valid_raw (concat f)"
proof -
  have "map fst (filter snd (zip xs (map g xs))) = filter g xs" for xs :: "'a list" and g
    by (induction xs) simp_all
  then show ?thesis by (simp add: masked_def valid_mask_def map_concat [symmetric])
qed

section \<open>Properties of the harness\<close>

lemma run_test_result:
  "fst (run_test f n self w) =
     (case fst (f self w) of
        Inr d \<Rightarrow> \<lparr>test_name = n, success = True, data = d, error_message = None,
                  execution_time = now (snd (f self w)) - now w\<rparr>
      | Inl e \<Rightarrow> \<lparr>test_name = n, success = False, data = EmptyDict,
                  error_message = Some (str e),
                  execution_time = now (snd (f self w)) - now w\<rparr>)"
  by (simp add: run_test_def Let_def split: prod.splits sum.splits)

lemma run_test_tester:
  "fst (snd (run_test f n self w)) =
     self\<lparr>test_results := test_results self @ [fst (run_test f n self w)]\<rparr>"
  by (simp add: run_test_def Let_def split: prod.splits sum.splits)

lemma run_test_world: "snd (snd (run_test f n self w)) = snd (f self w)"
  by (simp add: run_test_def Let_def split: prod.splits sum.splits)

lemma run_test_params: "params (fst (snd (run_test f n self w))) = params self"
  by (simp add: run_test_tester)

lemma run_test_result_ok: "result_ok (fst (run_test f n self w))"
  by (simp add: run_test_result result_ok_def split: sum.splits)

lemma run_procs_params: "params (fst (run_procs ps self w)) = params self"
proof (induction ps arbitrary: self w)
  case Nil
  show ?case by simp
next
  case (Cons a ps)
  obtain n p where a: "a = (n, p)" by (cases a)
  obtain r s' w' where rt: "run_test p n self w = (r, s', w')" by (cases "run_test p n self w")
  have "params s' = params self" using run_test_params [of p n self w] rt by simp
  then show ?case using Cons.IH [of s' w'] a rt by simp
qed

lemma run_procs_results:
  "test_results (fst (run_procs ps self w)) = test_results self @ new_results ps self w"
proof (induction ps arbitrary: self w)
  case Nil
  show ?case by simp
next
  case (Cons a ps)
  obtain n p where a: "a = (n, p)" by (cases a)
  obtain r s' w' where rt: "run_test p n self w = (r, s', w')" by (cases "run_test p n self w")
  have "test_results s' = test_results self @ [r]"
    using run_test_tester [of p n self w] rt by simp
  then show ?case using Cons.IH [of s' w'] a rt by simp
qed


lemma length_outcomes: "length (outcomes ps self w) = length ps"
proof (induction ps arbitrary: self w)
  case Nil
  show ?case by simp
next
  case (Cons a ps)
  then show ?case by (cases a) (simp split: prod.splits)
qed


lemma new_results_ok: "r \<in> set (new_results ps self w) \<Longrightarrow> result_ok r"
proof (induction ps arbitrary: self w)
  case Nil
  then show ?case by simp
next
  case (Cons a ps)
  obtain n p where a: "a = (n, p)" by (cases a)
  obtain r' s' w' where rt: "run_test p n self w = (r', s', w')" by (cases "run_test p n self w")
  have "result_ok r'" using run_test_result_ok [of p n self w] rt by simp
  then show ?case using Cons.IH [of s' w'] Cons.prems a rt by auto
qed



lemma setup_camera_keeps:
  "setup_camera self w = (ok, self', w') \<Longrightarrow>
     test_results self' = test_results self \<and> params self' = params self"
  by (auto simp: setup_camera_def Let_def split: if_splits)

lemma run_all_tests_failed_setup:
  "setup_camera self w = (False, self0, w0) \<Longrightarrow> run_all_tests ms self w = ([], self0, w0)"
  by (simp add: run_all_tests_def)

lemma snd_run_test_eq:
  "snd (run_test f n self w) = run_procs [(n, f)] self w"
  by (simp split: prod.splits)

lemma run_procs_append:
  "run_procs (ps @ qs) self w = (case run_procs ps self w of (s', w') \<Rightarrow> run_procs qs s' w')"
proof (induction ps arbitrary: self w)
  case Nil
  show ?case by simp
next
  case (Cons a ps)
  then show ?case by (cases a) (simp split: prod.splits)
qed

lemma run_all_tests_run_procs:
  assumes "setup_camera self w = (True, self0, w0)"
  shows "run_all_tests ms self w =
           (case run_procs (enabled_procedures ms (params self)) self0 w0 of
              (s', w') \<Rightarrow> (test_results s', s', w'))"
proof -
  have p0: "params self0 = params self" using setup_camera_keeps [OF assms] by simp
  obtain s1 w1 where r1: "run_procs [(BasicTest, m_basic_functionality ms)] self0 w0 = (s1, w1)"
    by (cases "run_procs [(BasicTest, m_basic_functionality ms)] self0 w0")
  have p1: "params s1 = params self"
    using run_procs_params [of "[(BasicTest, m_basic_functionality ms)]" self0 w0] r1 p0 by simp
  define l2 where "l2 = (if frame_rate_test_duration (params self) > 0
                          then [(FrameRateTest, m_frame_rate ms)] else [])"
  obtain s2 w2 where r2: "run_procs l2 s1 w1 = (s2, w2)" by (cases "run_procs l2 s1 w1")
  have p2: "params s2 = params self" using run_procs_params [of l2 s1 w1] r2 p1 by simp
  obtain s3 w3 where r3: "run_procs [(RepeatabilityTest, m_repeatability ms)] s2 w2 = (s3, w3)"
    by (cases "run_procs [(RepeatabilityTest, m_repeatability ms)] s2 w2")
  have p3: "params s3 = params self"
    using run_procs_params [of "[(RepeatabilityTest, m_repeatability ms)]" s2 w2] r3 p2 by simp
  define l4 where "l4 = (if stability_test_duration (params self) > 0
                          then [(StabilityTest, m_stability ms)] else [])"
  obtain s4 w4 where r4: "run_procs l4 s3 w3 = (s4, w4)" by (cases "run_procs l4 s3 w3")
  have p4: "params s4 = params self" using run_procs_params [of l4 s3 w3] r4 p3 by simp
  define l5 where "l5 = (if noise_test_count (params self) > 0
                          then [(NoiseTest, m_noise ms)] else [])"
  obtain s5 w5 where r5: "run_procs l5 s4 w4 = (s5, w5)" by (cases "run_procs l5 s4 w4")
  have e: "enabled_procedures ms (params self) =
             [(BasicTest, m_basic_functionality ms)] @ l2
             @ [(RepeatabilityTest, m_repeatability ms)] @ l4 @ l5"
    by (simp add: enabled_procedures_def l2_def l4_def l5_def)
  have rhs: "run_procs (enabled_procedures ms (params self)) self0 w0 = (s5, w5)"
    by (simp only: e run_procs_append r1 r2 r3 r4 r5 prod.case)
  have a1: "snd (run_test (m_basic_functionality ms) BasicTest self0 w0) = (s1, w1)"
    using r1 by (simp only: snd_run_test_eq)
  have a2: "(if frame_rate_test_duration (params s1) > 0
             then snd (run_test (m_frame_rate ms) FrameRateTest s1 w1) else (s1, w1)) = (s2, w2)"
    using r2 p1 by (simp add: l2_def split: if_splits prod.splits)
  have a3: "snd (run_test (m_repeatability ms) RepeatabilityTest s2 w2) = (s3, w3)"
    using r3 by (simp only: snd_run_test_eq)
  have a4: "(if stability_test_duration (params s3) > 0
             then snd (run_test (m_stability ms) StabilityTest s3 w3) else (s3, w3)) = (s4, w4)"
    using r4 p3 by (simp add: l4_def split: if_splits prod.splits)
  have a5: "(if noise_test_count (params s4) > 0
             then snd (run_test (m_noise ms) NoiseTest s4 w4) else (s4, w4)) = (s5, w5)"
    using r5 p4 by (simp add: l5_def split: if_splits prod.splits)
  have "run_all_tests ms self w = (test_results s5, s5, w5)"
    unfolding run_all_tests_def assms by (simp add: Let_def a1 a2 a3 a4 a5)
  then show ?thesis using rhs by simp
qed

subsection \<open>One result per enabled procedure\<close>





subsection \<open>The invariant of a test result\<close>

text \<open>
  Claim C4. Every result the harness produces, by one call of \<open>run_test\<close> or in the list
  \<open>run_all_tests\<close> returns for a fresh tester, satisfies: \<open>success = False\<close> implies
  that the data is the empty dictionary and the error message is set, and \<open>success = True\<close>
  implies that the error message is absent.
\<close>

theorem test_result_invariant:
  "result_ok (fst (run_test f n self w))
   \<and> (test_results self = [] \<longrightarrow> (\<forall>r \<in> set (fst (run_all_tests ms self w)). result_ok r))"
proof (intro conjI impI ballI)
  show "result_ok (fst (run_test f n self w))" by (rule run_test_result_ok)
next
  fix r
  assume fresh: "test_results self = []" and r: "r \<in> set (fst (run_all_tests ms self w))"
  obtain ok self0 w0 where s: "setup_camera self w = (ok, self0, w0)"
    by (cases "setup_camera self w")
  show "result_ok r"
  proof (cases ok)
    case False
    then show ?thesis using run_all_tests_failed_setup [of self w self0 w0 ms] s r by simp
  next
    case True
    let ?ps = "enabled_procedures ms (params self)"
    have t0: "test_results self0 = []" using setup_camera_keeps [OF s] fresh by simp
    obtain s' w' where rp: "run_procs ?ps self0 w0 = (s', w')"
      by (cases "run_procs ?ps self0 w0")
    have "fst (run_all_tests ms self w) = test_results s'"
      using run_all_tests_run_procs [of self w self0 w0 ms] s True rp by simp
    also have "\<dots> = new_results ?ps self0 w0"
      using run_procs_results [of ?ps self0 w0] rp t0 by simp
    finally show ?thesis using r new_results_ok by simp
  qed
qed

theorem test_result_invariant_witness:
  "success (fst (run_test raises_boom NoiseTest (new_tester quick_params) (bench_world 0.01 [])))
     = False
   \<and> data (fst (run_test raises_boom NoiseTest (new_tester quick_params) (bench_world 0.01 [])))
     = EmptyDict
   \<and> error_message (fst (run_test raises_boom NoiseTest (new_tester quick_params) (bench_world 0.01 [])))
     = Some ''boom''
   \<and> success (fst (run_test returns_empty BasicTest (new_tester quick_params) (bench_world 0.01 [])))
     = True
   \<and> error_message (fst (run_test returns_empty BasicTest (new_tester quick_params) (bench_world 0.01 [])))
     = None"
proof -
  let ?t = "new_tester quick_params" and ?w = "bench_world 0.01 []"
  have a: "result_ok (fst (run_test raises_boom NoiseTest ?t ?w))"
    using test_result_invariant [of raises_boom NoiseTest ?t ?w one_raising] by simp
  have b: "result_ok (fst (run_test returns_empty BasicTest ?t ?w))"
    using test_result_invariant [of returns_empty BasicTest ?t ?w one_raising] by simp
  have fa: "success (fst (run_test raises_boom NoiseTest ?t ?w)) = False"
    by (simp add: run_test_result raises_boom_def)
  have ea: "error_message (fst (run_test raises_boom NoiseTest ?t ?w)) = Some ''boom''"
    by (simp add: run_test_result raises_boom_def)
  have fb: "success (fst (run_test returns_empty BasicTest ?t ?w)) = True"
    by (simp add: run_test_result returns_empty_def)
  show ?thesis using a b fa ea fb by (simp add: result_ok_def)
qed

subsection \<open>Basic sanity: the validity mask and the valid ratio\<close>

lemma np_any_valid_mask:
  "np_any (valid_mask f) = (filter valid_raw (concat f) \<noteq> [])"
  by (simp add: np_any_def valid_mask_def map_concat [symmetric] list_ex_iff filter_empty_conv)

lemma np_count_valid_mask:
  "np_count (valid_mask f) = length (filter valid_raw (concat f))"
proof -
  have "length (filter (\<lambda>b. b) (map g xs)) = length (filter g xs)" for xs :: "nat list" and g
    by (induction xs) simp_all
  then show ?thesis by (simp add: np_count_def valid_mask_def map_concat [symmetric])
qed

lemma np_size_valid_mask: "np_size (valid_mask f) = length (concat f)"
  by (simp add: np_size_def valid_mask_def map_concat [symmetric])

lemma to_mm_F: "to_mm self (F x) = F (x * scale_of self)"
  by (simp add: to_mm_def scale_of_def split: option.splits)

lemma to_mm_astype:
  "map (to_mm self) (astype_float vs) = map F (map (\<lambda>v. real v * scale_of self) vs)"
  by (simp add: astype_float_def to_mm_F)

lemma valid_mask_nth:
  "y < length f \<Longrightarrow> x < length (f ! y) \<Longrightarrow>
     valid_mask f ! y ! x = (0 < f ! y ! x \<and> f ! y ! x < 65535)"
  by (simp add: valid_mask_def valid_raw_def)

lemma basic_with_frame:
  assumes cap: "capture_single_frame self w = (Some f, w')"
  shows "\<exists>d. test_basic_functionality self w = (Inr (BasicDict d), w')
           \<and> (if filter valid_raw (concat f) \<noteq> [] then
                 (\<exists>s. depth_stats d = Some s
                    \<and> valid_pixels s = length (filter valid_raw (concat f))
                    \<and> total_pixels s = length (concat f)
                    \<and> valid_ratio s =
                        F (real (length (filter valid_raw (concat f))) / real (length (concat f))))
               else depth_stats d = None)"
proof (cases "filter valid_raw (concat f) = []")
  case True
  then show ?thesis
    using cap by (simp add: test_basic_functionality_def Let_def np_any_valid_mask)
next
  case False
  let ?rs = "map (\<lambda>v. real v * scale_of self) (filter valid_raw (concat f))"
  have ne: "?rs \<noteq> []" using False by simp
  have c: "concat f \<noteq> []"
  proof
    assume "concat f = []"
    then have "filter valid_raw (concat f) = []" by (simp only: filter.simps)
    then show False using False by simp
  qed
  show ?thesis
    using cap False c np_min_F [OF ne] np_max_F [OF ne]
    by (simp add: test_basic_functionality_def Let_def np_any_valid_mask masked_valid
          to_mm_astype then_do_def np_count_valid_mask np_size_valid_mask del: map_map)
qed


lemma capture_bench:
  "capture_single_frame (connected_tester s p) (bench_world s' (depth_reply f # rs)) =
     (Some f, (bench_world s' rs))"
  by (simp add: capture_single_frame_def connected_tester_def bench_world_def depth_reply_def
        DeviceStreamRead_def)

lemma basic_scenario_4x4:
  "fst (test_basic_functionality (connected_tester (1 / 100) p) (bench_world (1 / 100) [depth_reply frame_4x4_1000]))
     = Inr (BasicDict
         \<lparr>device_info = Some \<lparr>info_id = ''207000159351'', info_modelName = ''FM851'',
                               info_ip = ''Unknown'', info_sn = ''Unknown''\<rparr>,
          single_capture = Some \<lparr>has_depth = True, depth_shape = (4, 4)\<rparr>,
          depth_stats = Some \<lparr>valid_pixels = 16, total_pixels = 16, valid_ratio = F 1,
                                min_depth = F 10, max_depth = F 10, mean_depth = F 10,
                                std_depth = F 0\<rparr>\<rparr>)"
proof -
  let ?t = "connected_tester (1 / 100) p"
  have cc: "concat frame_4x4_1000 =
      [1000, 1000, 1000, 1000, 1000, 1000, 1000, 1000, 1000, 1000, 1000, 1000, 1000, 1000, 1000, 1000]"
    by (simp add: frame_4x4_1000_def)
  have vs: "filter valid_raw (concat frame_4x4_1000) = concat frame_4x4_1000"
    by (simp add: cc valid_raw_def)
  have sc: "scale_of (connected_tester s p) = s" for s
    by (simp add: scale_of_def connected_tester_def)
  have mm: "map (to_mm ?t) (astype_float (concat frame_4x4_1000)) =
      map F [10, 10, 10, 10, 10, 10, 10, 10, 10, 10, 10, 10, 10, 10, 10, 10]"
    by (simp add: to_mm_astype sc cc)
  have mean: "np_mean (map F [10, 10, 10, 10, 10, 10, 10, 10, 10, 10, 10, 10, 10, 10, 10, 10]) = F 10"
    using np_mean_F [of "[10, 10, 10, 10, 10, 10, 10, 10, 10, 10, 10, 10, 10, 10, 10, 10]"] by simp
  have std: "np_std (map F [10, 10, 10, 10, 10, 10, 10, 10, 10, 10, 10, 10, 10, 10, 10, 10]) = F 0"
    using np_std_F [of "[10, 10, 10, 10, 10, 10, 10, 10, 10, 10, 10, 10, 10, 10, 10, 10]"] by simp
  have mx: "np_max (map F [10, 10, 10, 10, 10, 10, 10, 10, 10, 10, 10, 10, 10, 10, 10, 10]) = Inr (F 10)"
    using np_max_F [of "[10, 10, 10, 10, 10, 10, 10, 10, 10, 10, 10, 10, 10, 10, 10, 10]"] by simp
  have mn: "np_min (map F [10, 10, 10, 10, 10, 10, 10, 10, 10, 10, 10, 10, 10, 10, 10, 10]) = Inr (F 10)"
    using np_min_F [of "[10, 10, 10, 10, 10, 10, 10, 10, 10, 10, 10, 10, 10, 10, 10, 10]"] by simp
  have any: "np_any (valid_mask frame_4x4_1000)"
    unfolding np_any_valid_mask cc by (simp add: valid_raw_def)
  have cnt: "np_count (valid_mask frame_4x4_1000) = 16" "np_size (valid_mask frame_4x4_1000) = 16"
    unfolding np_count_valid_mask np_size_valid_mask cc by (simp_all add: valid_raw_def)
  have sh: "shape frame_4x4_1000 = (4, 4)" by (simp add: shape_def frame_4x4_1000_def)
  have dev: "find (\<lambda>dev. dev_id dev = device_id ?t) (dev_list (bench_world (1 / 100) [depth_reply frame_4x4_1000]))
       = Some \<lparr>dev_id = ''207000159351'', modelName = ''FM851'', ip = None, sn = None\<rparr>"
    by (simp add: connected_tester_def bench_world_def)
  show ?thesis
    by (simp add: test_basic_functionality_def Let_def capture_bench dev any masked_valid vs mm
          mean std mx mn cnt sh then_do_def del: list.map)
qed

lemma valid_raw_eq: "valid_raw = (\<lambda>v. 0 < v \<and> v < 65535)"
  by (rule ext) (simp add: valid_raw_def)

text \<open>
  Claim C5. The validity mask of a frame is true exactly at the pixels whose raw value lies
  strictly between 0 and 65535. When the basic-sanity procedure captures a frame it returns
  a dictionary (it does not raise); if some pixel is valid, \<open>depth_stats\<close> holds the number
  of valid pixels, the number of pixels, and \<open>valid_ratio\<close> equal to their quotient, and
  otherwise \<open>depth_stats\<close> stays \<open>None\<close>. For the 4x4 frame at 1000 with scale factor
  0.01 the statistics are min = max = mean = 10, std = 0 and valid_ratio = 1.
\<close>

theorem basic_sanity_mask_and_ratio:
  "(\<forall>y < length depth_data. \<forall>x < length (depth_data ! y).
      valid_mask depth_data ! y ! x = (0 < depth_data ! y ! x \<and> depth_data ! y ! x < 65535))
   \<and> (capture_single_frame self w = (Some depth_data, w') \<longrightarrow>
        (\<exists>d. test_basic_functionality self w = (Inr (BasicDict d), w')
           \<and> (if \<exists>v \<in> set (concat depth_data). 0 < v \<and> v < 65535 then
                 (\<exists>s. depth_stats d = Some s
                    \<and> valid_pixels s = length (filter (\<lambda>v. 0 < v \<and> v < 65535) (concat depth_data))
                    \<and> total_pixels s = length (concat depth_data)
                    \<and> valid_ratio s =
                        F (real (length (filter (\<lambda>v. 0 < v \<and> v < 65535) (concat depth_data)))
                           / real (length (concat depth_data))))
               else depth_stats d = None)))
   \<and> fst (test_basic_functionality (connected_tester (1 / 100) p)
             (bench_world (1 / 100) [depth_reply frame_4x4_1000]))
       = Inr (BasicDict
           \<lparr>device_info = Some \<lparr>info_id = ''207000159351'', info_modelName = ''FM851'',
                                 info_ip = ''Unknown'', info_sn = ''Unknown''\<rparr>,
            single_capture = Some \<lparr>has_depth = True, depth_shape = (4, 4)\<rparr>,
            depth_stats = Some \<lparr>valid_pixels = 16, total_pixels = 16, valid_ratio = F 1,
                                  min_depth = F 10, max_depth = F 10, mean_depth = F 10,
                                  std_depth = F 0\<rparr>\<rparr>)"
proof (intro conjI allI impI)
  fix y x
  assume "y < length depth_data" and "x < length (depth_data ! y)"
  then show "valid_mask depth_data ! y ! x = (0 < depth_data ! y ! x \<and> depth_data ! y ! x < 65535)"
    by (rule valid_mask_nth)
next
  assume cap: "capture_single_frame self w = (Some depth_data, w')"
  have ex: "(\<exists>v \<in> set (concat depth_data). valid_raw v)
              = (filter valid_raw (concat depth_data) \<noteq> [])"
    by (simp add: filter_empty_conv)
  show "\<exists>d. test_basic_functionality self w = (Inr (BasicDict d), w')
           \<and> (if \<exists>v \<in> set (concat depth_data). 0 < v \<and> v < 65535 then
                 (\<exists>s. depth_stats d = Some s
                    \<and> valid_pixels s = length (filter (\<lambda>v. 0 < v \<and> v < 65535) (concat depth_data))
                    \<and> total_pixels s = length (concat depth_data)
                    \<and> valid_ratio s =
                        F (real (length (filter (\<lambda>v. 0 < v \<and> v < 65535) (concat depth_data)))
                           / real (length (concat depth_data))))
               else depth_stats d = None)"
    unfolding valid_raw_eq [symmetric] ex using basic_with_frame [OF cap] .
next
  show "fst (test_basic_functionality (connected_tester (1 / 100) p)
             (bench_world (1 / 100) [depth_reply frame_4x4_1000]))
       = Inr (BasicDict
           \<lparr>device_info = Some \<lparr>info_id = ''207000159351'', info_modelName = ''FM851'',
                                 info_ip = ''Unknown'', info_sn = ''Unknown''\<rparr>,
            single_capture = Some \<lparr>has_depth = True, depth_shape = (4, 4)\<rparr>,
            depth_stats = Some \<lparr>valid_pixels = 16, total_pixels = 16, valid_ratio = F 1,
                                  min_depth = F 10, max_depth = F 10, mean_depth = F 10,
                                  std_depth = F 0\<rparr>\<rparr>)"
    by (rule basic_scenario_4x4)
qed

theorem basic_sanity_mask_and_ratio_witness:
  "capture_single_frame (connected_tester 1 quick_params) (bench_world 1 [depth_reply [[0, 7]]])
     = (Some [[0, 7]], bench_world 1 [])
   \<and> (\<exists>d s. test_basic_functionality (connected_tester 1 quick_params)
                (bench_world 1 [depth_reply [[0, 7]]]) = (Inr (BasicDict d), bench_world 1 [])
            \<and> depth_stats d = Some s \<and> valid_pixels s = 1 \<and> total_pixels s = 2
            \<and> valid_ratio s = F (1 / 2))
   \<and> valid_mask [[0, 7]] ! 0 ! 1 = True
   \<and> valid_mask [[0, 7]] ! 0 ! 0 = False"
proof -
  let ?t = "connected_tester 1 quick_params" and ?w = "bench_world 1 [depth_reply [[0, 7]]]"
  have cap: "capture_single_frame ?t ?w = (Some [[0, 7]], bench_world 1 [])"
    by (rule capture_bench)
  note inst = basic_sanity_mask_and_ratio [of "[[0, 7]]" ?t ?w "bench_world 1 []" quick_params]
  have m: "\<forall>y < length [[0, 7 :: nat]]. \<forall>x < length ([[0, 7 :: nat]] ! y).
      valid_mask [[0, 7]] ! y ! x = (0 < [[0, 7 :: nat]] ! y ! x \<and> [[0, 7 :: nat]] ! y ! x < 65535)"
    using inst by blast
  have m1: "valid_mask [[0, 7]] ! 0 ! 1 = True" using m by simp
  have m0: "valid_mask [[0, 7]] ! 0 ! 0 = False" using m by simp
  have "\<exists>d. test_basic_functionality ?t ?w = (Inr (BasicDict d), bench_world 1 [])
           \<and> (if \<exists>v \<in> set (concat [[0, 7 :: nat]]). 0 < v \<and> v < 65535 then
                 (\<exists>s. depth_stats d = Some s
                    \<and> valid_pixels s = length (filter (\<lambda>v. 0 < v \<and> v < 65535) (concat [[0, 7 :: nat]]))
                    \<and> total_pixels s = length (concat [[0, 7 :: nat]])
                    \<and> valid_ratio s =
                        F (real (length (filter (\<lambda>v. 0 < v \<and> v < 65535) (concat [[0, 7 :: nat]])))
                           / real (length (concat [[0, 7 :: nat]]))))
               else depth_stats d = None)"
    using inst cap by blast
  then have "\<exists>d s. test_basic_functionality ?t ?w = (Inr (BasicDict d), bench_world 1 [])
            \<and> depth_stats d = Some s \<and> valid_pixels s = 1 \<and> total_pixels s = 2
            \<and> valid_ratio s = F (1 / 2)"
    by (simp add: numeral_2_eq_2)
  then show ?thesis using cap m1 m0 by simp
qed

subsection \<open>A result fails exactly when its procedure raised\<close>





lemma capture_timeout:
  "capture_single_frame (connected_tester s p) (bench_world s' []) =
     (None, (bench_world s' [])\<lparr>now := 5\<rparr>)"
  by (simp add: capture_single_frame_def connected_tester_def bench_world_def DeviceStreamRead_def)


subsection \<open>Repeatability: the choice of test points\<close>











lemma repeatability_loop_length:
  "length pd = target \<Longrightarrow>
     length (fst (fst (repeatability_loop self coords target n (pd, sc) w))) = target"
proof (induction n arbitrary: pd sc w)
  case 0
  then show ?case by simp
next
  case (Suc n)
  show ?case
  proof (cases "capture_single_frame self (sleep 1 w)")
    case (Pair depth w')
    show ?thesis
    proof (cases depth)
      case None
      then show ?thesis using Pair Suc by simp
    next
      case (Some d)
      have "length (map (\<lambda>j. record_point self d (coords ! j) (pd ! j)) [0..<target]) = target"
        by simp
      then show ?thesis using Pair Some Suc.IH by simp
    qed
  qed
qed








subsection \<open>Repeatability: the statistics of a point and their aggregation\<close>

lemma np_mean_mean: "rs \<noteq> [] \<Longrightarrow> np_mean (map F rs) = F (mean rs)"
  by (simp add: np_mean_F mean_def)

lemma np_std_std_dev: "rs \<noteq> [] \<Longrightarrow> np_std (map F rs) = F (std_dev rs)"
  by (simp add: np_std_F std_dev_def mean_def)

lemma no_NaN_map_F: "NaN \<notin> set xs \<Longrightarrow> \<exists>rs. xs = map F rs"
proof (induction xs)
  case Nil
  show ?case by simp
next
  case (Cons x xs)
  then obtain rs where "xs = map F rs" by auto
  moreover obtain r where "x = F r" using Cons.prems by (cases x) auto
  ultimately have "x # xs = map F (r # rs)" by simp
  then show ?case by (rule exI [of _ "r # rs"])
qed

lemma analyse_point_F:
  assumes "point_data ! i = map F rs" and "2 \<le> length rs"
  shows "analyse_point coords point_data i =
           Some \<lparr>point_id = i,
                 coordinates = (snd (coords ! i), fst (coords ! i)),
                 measurement_count = length rs,
                 pt_mean_depth = F (mean rs),
                 pt_std_depth = F (std_dev rs),
                 pt_max_depth_deviation = F (max_abs_deviation rs),
                 pt_depth_range = F (spread rs)\<rparr>"
proof -
  have ne: "rs \<noteq> []" using assms(2) by auto
  have dev: "map (\<lambda>d. fabs (fsub d (F (mean rs)))) (map F rs) = map F (map (\<lambda>x. \<bar>x - mean rs\<bar>) rs)"
    by simp
  have ne': "map (\<lambda>x. \<bar>x - mean rs\<bar>) rs \<noteq> []" using ne by simp
  show ?thesis
    using assms
    by (simp add: analyse_point_def Let_def np_mean_mean [OF ne] np_std_std_dev [OF ne] dev
          np_max_F [OF ne'] np_max_F [OF ne] np_min_F [OF ne] then_do_def
          max_abs_deviation_def spread_def del: map_map set_map)
qed

lemma analyse_point_short:
  "length (point_data ! i) < 2 \<Longrightarrow> analyse_point coords point_data i = None"
  by (simp add: analyse_point_def)


lemma record_point_no_NaN:
  "NaN \<notin> set samples \<Longrightarrow> NaN \<notin> set (record_point self d c samples)"
  by (cases c) (simp add: record_point_def Let_def to_mm_F)

lemma repeatability_loop_no_NaN:
  assumes "length pd = target" and "\<forall>j < target. NaN \<notin> set (pd ! j)"
  shows "\<forall>j < target. NaN \<notin> set (fst (fst (repeatability_loop self coords target n (pd, sc) w)) ! j)"
  using assms
proof (induction n arbitrary: pd sc w)
  case 0
  then show ?case by simp
next
  case (Suc n)
  show ?case
  proof (cases "capture_single_frame self (sleep 1 w)")
    case (Pair depth w')
    show ?thesis
    proof (cases depth)
      case None
      then show ?thesis using Pair Suc by simp
    next
      case (Some d)
      let ?pd = "map (\<lambda>j. record_point self d (coords ! j) (pd ! j)) [0..<target]"
      have l: "length ?pd = target" by simp
      have i: "\<forall>j < target. NaN \<notin> set (?pd ! j)"
        using Suc.prems(2) by (simp add: record_point_no_NaN)
      show ?thesis using Suc.IH [OF l i] Pair Some by simp
    qed
  qed
qed

lemma acquire_point_data:
  assumes "repeatability_acquire self w = (Inr (coords, target, pd, sc), w')"
  shows "length pd = target \<and> (\<forall>j < target. NaN \<notin> set (pd ! j))"
proof -
  obtain seed w1 where cap: "capture_single_frame self w = (Some seed, w1)"
    and any: "np_any (valid_mask seed)"
    using assms
    by (cases "capture_single_frame self w")
       (auto simp: repeatability_acquire_def Let_def split: option.splits if_splits)
  let ?n = "nat (repeatability_test_count (params self))"
  have sp: "select_points w1 (valid_mask seed) = (coords, target)"
    and lp: "repeatability_loop self coords target ?n (replicate target [], 0) w1 = ((pd, sc), w')"
    using assms cap any
    by (auto simp: repeatability_acquire_def Let_def split: prod.splits)
  have "length pd = target"
    using repeatability_loop_length [of "replicate target []" target self coords ?n 0 w1] lp
    by simp
  moreover have "\<forall>j < target. NaN \<notin> set (pd ! j)"
    using repeatability_loop_no_NaN [of "replicate target []" target self coords ?n 0 w1] lp
    by simp
  ultimately show ?thesis by simp
qed

lemma acquire_count_positive:
  assumes "repeatability_acquire self w = (Inr (coords, target, pd, sc), w')"
      and "i < target" and "pd ! i \<noteq> []"
  shows "0 < repeatability_test_count (params self)"
proof (rule ccontr)
  assume "\<not> 0 < repeatability_test_count (params self)"
  then have z: "nat (repeatability_test_count (params self)) = 0" by simp
  have "pd = replicate target []"
    using assms(1) unfolding repeatability_acquire_def Let_def z
    by (auto split: prod.splits option.splits if_splits)
  then show False using assms(2,3) by simp
qed

lemma set_analyse_points:
  "set (analyse_points coords target pd) =
     {p. \<exists>i < target. analyse_point coords pd i = Some p}"
  by (force simp: analyse_points_def List.map_filter_def image_iff)

lemma test_repeatability_after_acquire:
  assumes "repeatability_acquire self w = (Inr (coords, target, pd, sc), w')"
  shows "test_repeatability self w =
     ((let analysis = analyse_points coords target pd in
      if length analysis = 0 then Inr (ErrorDict NotEnoughPointData)
      else then_do (overall_statistics analysis) (\<lambda>stats.
           then_do (py_truediv (int sc) (repeatability_test_count (params self))) (\<lambda>rate.
           Inr (RepeatabilityDict
             \<lparr>rp_test_count = repeatability_test_count (params self),
              rp_success_count = sc, rp_success_rate = rate,
              rp_target_points = target, rp_valid_points = length analysis,
              rp_overall_stats = stats, rp_point_analysis = analysis,
              rp_test_point_coordinates =
                map (\<lambda>i. (snd (coords ! i), fst (coords ! i))) [0..<target],
              rp_raw_depth_data = pd\<rparr>)))), w')"
  using assms by (simp add: test_repeatability_def Let_def)

lemma overall_statistics_F:
  assumes "analysis \<noteq> []"
      and "map pt_std_depth analysis = map F stds"
      and "map pt_max_depth_deviation analysis = map F devs"
      and "map pt_depth_range analysis = map F ranges"
  shows "overall_statistics analysis =
           Inr \<lparr>mean_depth_std = F (mean stds), std_depth_std = F (std_dev stds),
                max_depth_std = F (Max (set stds)),
                mean_depth_deviation = F (mean devs), std_depth_deviation = F (std_dev devs),
                max_depth_deviation = F (Max (set devs)),
                mean_depth_range = F (mean ranges), std_depth_range = F (std_dev ranges)\<rparr>"
proof -
  have "length stds = length analysis" "length devs = length analysis"
    "length ranges = length analysis"
    using assms(2,3,4) by (metis length_map)+
  then have ne: "stds \<noteq> []" "devs \<noteq> []" "ranges \<noteq> []" using assms(1) by auto
  show ?thesis
    unfolding overall_statistics_def Let_def assms(2,3,4)
    by (simp add: np_max_F ne np_mean_mean np_std_std_dev then_do_def del: set_map)
qed


lemma repeatability_statistics_general:
  assumes acq: "repeatability_acquire self w = (Inr (coords, target, pd, sc), w')"
      and q: "i0 < target" "2 \<le> length (pd ! i0)"
  shows "\<exists>r stds devs ranges.
           test_repeatability self w = (Inr (RepeatabilityDict r), w')
         \<and> rp_raw_depth_data r = pd
         \<and> (\<forall>i < target. 2 \<le> length (pd ! i) \<longrightarrow>
               (\<exists>rs. pd ! i = map F rs \<and> point_entry coords i rs \<in> set (rp_point_analysis r)))
         \<and> map pt_std_depth (rp_point_analysis r) = map F stds
         \<and> map pt_max_depth_deviation (rp_point_analysis r) = map F devs
         \<and> map pt_depth_range (rp_point_analysis r) = map F ranges
         \<and> rp_overall_stats r =
              \<lparr>mean_depth_std = F (mean stds), std_depth_std = F (std_dev stds),
               max_depth_std = F (Max (set stds)),
               mean_depth_deviation = F (mean devs), std_depth_deviation = F (std_dev devs),
               max_depth_deviation = F (Max (set devs)),
               mean_depth_range = F (mean ranges), std_depth_range = F (std_dev ranges)\<rparr>"
proof -
  define analysis where "analysis = analyse_points coords target pd"
  have fin: "\<forall>j < target. NaN \<notin> set (pd ! j)" using acquire_point_data [OF acq] by simp
  have A: "\<exists>rs. pd ! i = map F rs \<and> analyse_point coords pd i = Some (point_entry coords i rs)"
    if lt: "i < target" and ge: "2 \<le> length (pd ! i)" for i
  proof -
    have "NaN \<notin> set (pd ! i)" using fin lt by simp
    then obtain rs where rs: "pd ! i = map F rs" using no_NaN_map_F by blast
    then have "2 \<le> length rs" using ge by simp
    then show ?thesis using analyse_point_F [OF rs] rs by (auto simp: point_entry_def)
  qed
  have inA: "\<exists>rs. pd ! i = map F rs \<and> point_entry coords i rs \<in> set analysis"
    if "i < target" "2 \<le> length (pd ! i)" for i
    using A [OF that] that(1) unfolding analysis_def set_analyse_points by blast
  have ne: "analysis \<noteq> []" using inA [OF q] by auto
  have B: "\<exists>i rs. p = point_entry coords i rs" if mem: "p \<in> set analysis" for p
  proof -
    obtain i where i: "i < target" "analyse_point coords pd i = Some p"
      using mem unfolding analysis_def set_analyse_points by blast
    have "2 \<le> length (pd ! i)"
      using i(2) analyse_point_short [of pd i coords] by (cases "2 \<le> length (pd ! i)") auto
    then show ?thesis using A [OF i(1)] i(2) by auto
  qed
  have B': "pt_std_depth p \<noteq> NaN \<and> pt_max_depth_deviation p \<noteq> NaN \<and> pt_depth_range p \<noteq> NaN"
    if mem: "p \<in> set analysis" for p
  proof -
    obtain i rs where "p = point_entry coords i rs" using B [OF mem] by blast
    then show ?thesis by (simp add: point_entry_def)
  qed
  have "NaN \<notin> set (map pt_std_depth analysis)" "NaN \<notin> set (map pt_max_depth_deviation analysis)"
    "NaN \<notin> set (map pt_depth_range analysis)"
    using B' by (auto simp: image_iff) (metis+)
  then obtain stds devs ranges where l:
    "map pt_std_depth analysis = map F stds"
    "map pt_max_depth_deviation analysis = map F devs"
    "map pt_depth_range analysis = map F ranges"
    using no_NaN_map_F by metis
  note ov = overall_statistics_F [OF ne l]
  have "pd ! i0 \<noteq> []" using q(2) by (cases "pd ! i0") simp_all
  then have "0 < repeatability_test_count (params self)"
    by (rule acquire_count_positive [OF acq q(1)])
  then obtain rate where rate:
    "py_truediv (int sc) (repeatability_test_count (params self)) = Inr rate"
    by (simp add: py_truediv_def)
  let ?r = "\<lparr>rp_test_count = repeatability_test_count (params self),
              rp_success_count = sc, rp_success_rate = rate,
              rp_target_points = target, rp_valid_points = length analysis,
              rp_overall_stats =
                \<lparr>mean_depth_std = F (mean stds), std_depth_std = F (std_dev stds),
                 max_depth_std = F (Max (set stds)),
                 mean_depth_deviation = F (mean devs), std_depth_deviation = F (std_dev devs),
                 max_depth_deviation = F (Max (set devs)),
                 mean_depth_range = F (mean ranges), std_depth_range = F (std_dev ranges)\<rparr>,
              rp_point_analysis = analysis,
              rp_test_point_coordinates =
                map (\<lambda>i. (snd (coords ! i), fst (coords ! i))) [0..<target],
              rp_raw_depth_data = pd\<rparr>"
  have res: "test_repeatability self w = (Inr (RepeatabilityDict ?r), w')"
    using test_repeatability_after_acquire [OF acq] ne ov rate
    by (simp add: Let_def analysis_def [symmetric] then_do_def)
  show ?thesis
    using res inA l
    by (intro exI [of _ ?r] exI [of _ stds] exI [of _ devs] exI [of _ ranges]) simp
qed


lemma std_a: "std_dev [10, 10, 10, 10] = 0"
  by (simp add: std_dev_def mean_def)

lemma std_b: "std_dev [5, 6, 5, 6] = 1 / 2"
proof -
  have "mean [5, 6, 5, 6] = 11 / 2" by (simp add: mean_def)
  then have "std_dev [5, 6, 5, 6] = sqrt (1 / 4)"
    by (simp add: std_dev_def mean_def power2_eq_square)
  also have "\<dots> = 1 / 2" by (simp add: real_sqrt_divide)
  finally show ?thesis .
qed

lemma std_c: "std_dev [20, 20, 21, 20] = sqrt 3 / 4"
proof -
  have "mean [20, 20, 21, 20] = 81 / 4" by (simp add: mean_def)
  then have "std_dev [20, 20, 21, 20] = sqrt (3 / 16)"
    by (simp add: std_dev_def mean_def power2_eq_square)
  also have "\<dots> = sqrt 3 / 4"
    using real_sqrt_divide [of 3 16] real_sqrt_mult [of 4 4] by simp
  finally show ?thesis .
qed

lemma sqrt3_bounds: "1.7320 < sqrt 3 \<and> sqrt 3 < 1.7321"
proof
  show "1.7320 < sqrt 3" by (rule real_less_rsqrt) (simp add: power2_eq_square)
  show "sqrt 3 < 1.7321" by (rule real_less_lsqrt) (simp_all add: power2_eq_square)
qed

lemma scenario_acquire:
  "fst (repeatability_acquire (connected_tester 1 quick_params)
     (bench_world 1 [depth_reply [[10, 5, 20]], depth_reply [[10, 5, 20]],
                     depth_reply [[10, 6, 20]], depth_reply [[10, 5, 21]],
                     depth_reply [[10, 6, 20]]]))
   = Inr ([(0, 0), (0, 1), (0, 2)], 3,
          [[F 10, F 10, F 10, F 10], [F 5, F 6, F 5, F 6], [F 20, F 20, F 21, F 20]], 4)"
proof -
  have w: "np_where (valid_mask [[10, 5, 20]]) = [(0, 0), (0, 1), (0, 2)]"
    by (simp add: np_where_def row_coords_def valid_mask_def valid_raw_def upt_conv_Cons)
  have a: "np_any (valid_mask [[10, 5, 20]])"
    by (simp add: np_any_valid_mask valid_raw_def)
  have c: "is_connected (connected_tester 1 quick_params)"
    "depth_scale_factor (connected_tester 1 quick_params) = Some 1"
    by (simp_all add: connected_tester_def)
  have cnt: "nat (repeatability_test_count (params (connected_tester 1 quick_params)))
               = Suc (Suc (Suc (Suc 0)))"
    by (simp add: connected_tester_def quick_params_def)
  have u3: "[0..<3] = [0, 1, 2]" by (simp add: upt_conv_Cons)
  show ?thesis
    by (simp add: repeatability_acquire_def Let_def capture_single_frame_def c cnt
          bench_world_def depth_reply_def DeviceStreamRead_def a w select_points_def
          u3 sleep_def record_point_def shape_def to_mm_def)
qed


lemma scenario_result:
  "\<exists>r. fst (test_repeatability (connected_tester 1 quick_params)
     (bench_world 1 [depth_reply [[10, 5, 20]], depth_reply [[10, 5, 20]],
                     depth_reply [[10, 6, 20]], depth_reply [[10, 5, 21]],
                     depth_reply [[10, 6, 20]]])) = Inr (RepeatabilityDict r)
     \<and> rp_raw_depth_data r =
         [[F 10, F 10, F 10, F 10], [F 5, F 6, F 5, F 6], [F 20, F 20, F 21, F 20]]
     \<and> map point_id (rp_point_analysis r) = [0, 1, 2]
     \<and> map pt_std_depth (rp_point_analysis r) = [F 0, F (1 / 2), F (sqrt 3 / 4)]
     \<and> mean_depth_std (rp_overall_stats r) = F ((1 / 2 + sqrt 3 / 4) / 3)"
proof -
  let ?t = "connected_tester 1 quick_params"
  let ?w = "bench_world 1 [depth_reply [[10, 5, 20]], depth_reply [[10, 5, 20]],
                     depth_reply [[10, 6, 20]], depth_reply [[10, 5, 21]],
                     depth_reply [[10, 6, 20]]]"
  let ?cs = "[(0, 0), (0, 1), (0, 2)] :: (nat \<times> nat) list"
  let ?pd = "[[F 10, F 10, F 10, F 10], [F 5, F 6, F 5, F 6], [F 20, F 20, F 21, F 20]]"
  obtain w' where acq: "repeatability_acquire ?t ?w = (Inr (?cs, 3, ?pd, 4), w')"
    using scenario_acquire by (cases "repeatability_acquire ?t ?w") simp
  have p0: "analyse_point ?cs ?pd 0 = Some (point_entry ?cs 0 [10, 10, 10, 10])"
    using analyse_point_F [of ?pd 0 "[10, 10, 10, 10]" ?cs] by (simp add: point_entry_def)
  have p1: "analyse_point ?cs ?pd 1 = Some (point_entry ?cs 1 [5, 6, 5, 6])"
    using analyse_point_F [of ?pd 1 "[5, 6, 5, 6]" ?cs] by (simp add: point_entry_def)
  have p2: "analyse_point ?cs ?pd 2 = Some (point_entry ?cs 2 [20, 20, 21, 20])"
    using analyse_point_F [of ?pd 2 "[20, 20, 21, 20]" ?cs] by (simp add: point_entry_def)
  let ?an = "[point_entry ?cs 0 [10, 10, 10, 10], point_entry ?cs 1 [5, 6, 5, 6],
              point_entry ?cs 2 [20, 20, 21, 20]]"
  have u3: "[0..<3] = [0, 1, 2]" by (simp add: upt_conv_Cons)
  have an: "analyse_points ?cs 3 ?pd = ?an"
    unfolding analyse_points_def u3 using p0 p1 p2 by simp
  have ov: "overall_statistics ?an =
      Inr \<lparr>mean_depth_std = F (mean [0, 1 / 2, sqrt 3 / 4]),
           std_depth_std = F (std_dev [0, 1 / 2, sqrt 3 / 4]),
           max_depth_std = F (Max (set [0, 1 / 2, sqrt 3 / 4])),
           mean_depth_deviation = F (mean (map max_abs_deviation
              [[10, 10, 10, 10], [5, 6, 5, 6], [20, 20, 21, 20]])),
           std_depth_deviation = F (std_dev (map max_abs_deviation
              [[10, 10, 10, 10], [5, 6, 5, 6], [20, 20, 21, 20]])),
           max_depth_deviation = F (Max (set (map max_abs_deviation
              [[10, 10, 10, 10], [5, 6, 5, 6], [20, 20, 21, 20]]))),
           mean_depth_range = F (mean (map spread
              [[10, 10, 10, 10], [5, 6, 5, 6], [20, 20, 21, 20]])),
           std_depth_range = F (std_dev (map spread
              [[10, 10, 10, 10], [5, 6, 5, 6], [20, 20, 21, 20]]))\<rparr>"
    by (rule overall_statistics_F) (simp_all add: point_entry_def std_a std_b std_c)
  have cnt: "repeatability_test_count (params ?t) = 4"
    by (simp add: connected_tester_def quick_params_def)
  have m: "mean [0, 1 / 2, sqrt 3 / 4] = (1 / 2 + sqrt 3 / 4) / 3" by (simp add: mean_def)
  note e = test_repeatability_after_acquire [OF acq, unfolded Let_def an ov cnt m]
  show ?thesis
    using e
    by (simp add: then_do_def py_truediv_def point_entry_def std_a std_b std_c
          del: set_simps)
qed


text \<open>
  Claim C6. For every run whose acquisition left some point with at least two samples, the
  procedure returns its full dictionary; every point with at least two samples has an entry
  in \<open>point_analysis\<close> holding the mean, the population standard deviation, the largest
  absolute deviation from the mean and the range of its samples; and \<open>overall_stats\<close> holds
  the mean, standard deviation and maximum of the per-point standard deviations and
  deviations, and the mean and standard deviation of the per-point ranges. In the scenario
  of three points with samples 10,10,10,10 / 5,6,5,6 / 20,20,21,20 the per-point standard
  deviations are 0, 0.5 and within 0.001 of 0.433, and \<open>mean_depth_std\<close> is within 0.001
  of 0.311.
\<close>

theorem repeatability_point_statistics:
  "(repeatability_acquire self w = (Inr (coords, target, point_data, success_count), w')
      \<and> i0 < target \<and> 2 \<le> length (point_data ! i0) \<longrightarrow>
      (\<exists>r stds devs ranges.
           test_repeatability self w = (Inr (RepeatabilityDict r), w')
         \<and> rp_raw_depth_data r = point_data
         \<and> (\<forall>i < target. 2 \<le> length (point_data ! i) \<longrightarrow>
               (\<exists>rs. point_data ! i = map F rs
                   \<and> point_entry coords i rs \<in> set (rp_point_analysis r)))
         \<and> map pt_std_depth (rp_point_analysis r) = map F stds
         \<and> map pt_max_depth_deviation (rp_point_analysis r) = map F devs
         \<and> map pt_depth_range (rp_point_analysis r) = map F ranges
         \<and> rp_overall_stats r =
              \<lparr>mean_depth_std = F (mean stds), std_depth_std = F (std_dev stds),
               max_depth_std = F (Max (set stds)),
               mean_depth_deviation = F (mean devs), std_depth_deviation = F (std_dev devs),
               max_depth_deviation = F (Max (set devs)),
               mean_depth_range = F (mean ranges), std_depth_range = F (std_dev ranges)\<rparr>))
   \<and> (\<exists>r s m.
         fst (test_repeatability (connected_tester 1 quick_params)
           (bench_world 1 [depth_reply [[10, 5, 20]], depth_reply [[10, 5, 20]],
                           depth_reply [[10, 6, 20]], depth_reply [[10, 5, 21]],
                           depth_reply [[10, 6, 20]]])) = Inr (RepeatabilityDict r)
       \<and> rp_raw_depth_data r =
           [[F 10, F 10, F 10, F 10], [F 5, F 6, F 5, F 6], [F 20, F 20, F 21, F 20]]
       \<and> map point_id (rp_point_analysis r) = [0, 1, 2]
       \<and> map pt_std_depth (rp_point_analysis r) = [F 0, F (1 / 2), F s]
       \<and> \<bar>s - 0.433\<bar> < 0.001
       \<and> mean_depth_std (rp_overall_stats r) = F m
       \<and> \<bar>m - 0.311\<bar> < 0.001)"
proof (intro conjI impI)
  assume a: "repeatability_acquire self w = (Inr (coords, target, point_data, success_count), w')
      \<and> i0 < target \<and> 2 \<le> length (point_data ! i0)"
  show "\<exists>r stds devs ranges.
           test_repeatability self w = (Inr (RepeatabilityDict r), w')
         \<and> rp_raw_depth_data r = point_data
         \<and> (\<forall>i < target. 2 \<le> length (point_data ! i) \<longrightarrow>
               (\<exists>rs. point_data ! i = map F rs
                   \<and> point_entry coords i rs \<in> set (rp_point_analysis r)))
         \<and> map pt_std_depth (rp_point_analysis r) = map F stds
         \<and> map pt_max_depth_deviation (rp_point_analysis r) = map F devs
         \<and> map pt_depth_range (rp_point_analysis r) = map F ranges
         \<and> rp_overall_stats r =
              \<lparr>mean_depth_std = F (mean stds), std_depth_std = F (std_dev stds),
               max_depth_std = F (Max (set stds)),
               mean_depth_deviation = F (mean devs), std_depth_deviation = F (std_dev devs),
               max_depth_deviation = F (Max (set devs)),
               mean_depth_range = F (mean ranges), std_depth_range = F (std_dev ranges)\<rparr>"
    by (rule repeatability_statistics_general [of self w coords target point_data success_count w' i0])
       (simp_all add: a)
next
  obtain r where r:
    "fst (test_repeatability (connected_tester 1 quick_params)
       (bench_world 1 [depth_reply [[10, 5, 20]], depth_reply [[10, 5, 20]],
                       depth_reply [[10, 6, 20]], depth_reply [[10, 5, 21]],
                       depth_reply [[10, 6, 20]]])) = Inr (RepeatabilityDict r)"
    "rp_raw_depth_data r =
       [[F 10, F 10, F 10, F 10], [F 5, F 6, F 5, F 6], [F 20, F 20, F 21, F 20]]"
    "map point_id (rp_point_analysis r) = [0, 1, 2]"
    "map pt_std_depth (rp_point_analysis r) = [F 0, F (1 / 2), F (sqrt 3 / 4)]"
    "mean_depth_std (rp_overall_stats r) = F ((1 / 2 + sqrt 3 / 4) / 3)"
    using scenario_result by (elim exE conjE)
  have s: "\<bar>sqrt 3 / 4 - 0.433\<bar> < 0.001" using sqrt3_bounds by (simp add: abs_less_iff)
  have m: "\<bar>(1 / 2 + sqrt 3 / 4) / 3 - 0.311\<bar> < 0.001"
    using sqrt3_bounds by (simp add: abs_less_iff)
  show "\<exists>r s m.
         fst (test_repeatability (connected_tester 1 quick_params)
           (bench_world 1 [depth_reply [[10, 5, 20]], depth_reply [[10, 5, 20]],
                           depth_reply [[10, 6, 20]], depth_reply [[10, 5, 21]],
                           depth_reply [[10, 6, 20]]])) = Inr (RepeatabilityDict r)
       \<and> rp_raw_depth_data r =
           [[F 10, F 10, F 10, F 10], [F 5, F 6, F 5, F 6], [F 20, F 20, F 21, F 20]]
       \<and> map point_id (rp_point_analysis r) = [0, 1, 2]
       \<and> map pt_std_depth (rp_point_analysis r) = [F 0, F (1 / 2), F s]
       \<and> \<bar>s - 0.433\<bar> < 0.001
       \<and> mean_depth_std (rp_overall_stats r) = F m
       \<and> \<bar>m - 0.311\<bar> < 0.001"
    by (intro exI [of _ r] exI [of _ "sqrt 3 / 4"] exI [of _ "(1 / 2 + sqrt 3 / 4) / 3"])
       (simp only: r s m simp_thms)
qed

theorem repeatability_point_statistics_witness:
  "fst (repeatability_acquire (connected_tester 1 quick_params)
     (bench_world 1 [depth_reply [[10, 5, 20]], depth_reply [[10, 5, 20]],
                     depth_reply [[10, 6, 20]], depth_reply [[10, 5, 21]],
                     depth_reply [[10, 6, 20]]]))
     = Inr ([(0, 0), (0, 1), (0, 2)], 3,
          [[F 10, F 10, F 10, F 10], [F 5, F 6, F 5, F 6], [F 20, F 20, F 21, F 20]], 4)
   \<and> (1 :: nat) < 3
   \<and> 2 \<le> length ([[F 10, F 10, F 10, F 10], [F 5, F 6, F 5, F 6], [F 20, F 20, F 21, F 20]] ! 1)
   \<and> (\<exists>r. fst (test_repeatability (connected_tester 1 quick_params)
           (bench_world 1 [depth_reply [[10, 5, 20]], depth_reply [[10, 5, 20]],
                           depth_reply [[10, 6, 20]], depth_reply [[10, 5, 21]],
                           depth_reply [[10, 6, 20]]])) = Inr (RepeatabilityDict r)
        \<and> point_entry [(0, 0), (0, 1), (0, 2)] 1 [5, 6, 5, 6] \<in> set (rp_point_analysis r))"
proof -
  let ?t = "connected_tester 1 quick_params"
  let ?w = "bench_world 1 [depth_reply [[10, 5, 20]], depth_reply [[10, 5, 20]],
                     depth_reply [[10, 6, 20]], depth_reply [[10, 5, 21]],
                     depth_reply [[10, 6, 20]]]"
  let ?cs = "[(0, 0), (0, 1), (0, 2)] :: (nat \<times> nat) list"
  let ?pd = "[[F 10, F 10, F 10, F 10], [F 5, F 6, F 5, F 6], [F 20, F 20, F 21, F 20]]"
  obtain w' where acq: "repeatability_acquire ?t ?w = (Inr (?cs, 3, ?pd, 4), w')"
    using scenario_acquire by (cases "repeatability_acquire ?t ?w") simp
  have h: "repeatability_acquire ?t ?w = (Inr (?cs, 3, ?pd, 4), w')
             \<and> (1 :: nat) < 3 \<and> 2 \<le> length (?pd ! 1)"
    using acq by simp
  obtain r where r: "test_repeatability ?t ?w = (Inr (RepeatabilityDict r), w')"
    and all: "\<forall>i < 3. 2 \<le> length (?pd ! i) \<longrightarrow>
               (\<exists>rs. ?pd ! i = map F rs \<and> point_entry ?cs i rs \<in> set (rp_point_analysis r))"
    using repeatability_point_statistics [of ?t ?w ?cs 3 ?pd 4 w' 1, THEN conjunct1, rule_format, OF h]
    by (elim exE conjE)
  have "(1 :: nat) < 3" "2 \<le> length (?pd ! 1)" by simp_all
  then obtain rs where rs: "?pd ! 1 = map F rs" "point_entry ?cs 1 rs \<in> set (rp_point_analysis r)"
    using all by blast
  have "map F rs = map F [5, 6, 5, 6]" using rs(1) by simp
  moreover have "inj F" by (simp add: inj_def)
  ultimately have "rs = [5, 6, 5, 6]" by (simp only: inj_map_eq_map)
  then show ?thesis using scenario_acquire r rs(2) by simp
qed

lemma stats_A: "std_dev [10, 10, 10, 10] = 0" "max_abs_deviation [10, 10, 10, 10] = 0"
  "spread [10, 10, 10, 10] = 0"
  by (simp_all add: std_dev_def mean_def max_abs_deviation_def spread_def)

lemma stats_B: "std_dev [10, 14, 10, 14] = 2" "max_abs_deviation [10, 14, 10, 14] = 2"
  "spread [10, 14, 10, 14] = 4"
proof -
  have m: "mean [10, 14, 10, 14] = 12" by (simp add: mean_def)
  have "std_dev [10, 14, 10, 14] = sqrt 4" by (simp add: std_dev_def m) (simp add: mean_def)
  then show "std_dev [10, 14, 10, 14] = 2" by simp
  show "max_abs_deviation [10, 14, 10, 14] = 2" by (simp add: max_abs_deviation_def m)
  show "spread [10, 14, 10, 14] = 4" by (simp add: spread_def)
qed

lemma stats_agg: "mean [0, 2] = 1" "std_dev [0, 2] = 1" "mean [0, 4] = 2" "std_dev [0, 4] = 2"
proof -
  show m1: "mean [0, 2] = 1" and m2: "mean [0, 4] = 2" by (simp_all add: mean_def)
  have "std_dev [0, 2] = sqrt 1" by (simp add: std_dev_def m1) (simp add: mean_def)
  then show "std_dev [0, 2] = 1" by simp
  have "std_dev [0, 4] = sqrt 4" by (simp add: std_dev_def m2) (simp add: mean_def)
  then show "std_dev [0, 4] = 2" by simp
qed


lemma two_point_acquire:
  "fst (repeatability_acquire (connected_tester 1 quick_params)
     (bench_world 1 [depth_reply [[10, 10]], depth_reply [[10, 10]], depth_reply [[10, 14]],
                     depth_reply [[10, 10]], depth_reply [[10, 14]]]))
   = Inr ([(0, 0), (0, 1)], 2, [[F 10, F 10, F 10, F 10], [F 10, F 14, F 10, F 14]], 4)"
proof -
  have w: "np_where (valid_mask [[10, 10]]) = [(0, 0), (0, 1)]"
    by (simp add: np_where_def row_coords_def valid_mask_def valid_raw_def upt_conv_Cons)
  have a: "np_any (valid_mask [[10, 10]])"
    by (simp add: np_any_valid_mask valid_raw_def)
  have c: "is_connected (connected_tester 1 quick_params)"
    "depth_scale_factor (connected_tester 1 quick_params) = Some 1"
    by (simp_all add: connected_tester_def)
  have cnt: "nat (repeatability_test_count (params (connected_tester 1 quick_params)))
               = Suc (Suc (Suc (Suc 0)))"
    by (simp add: connected_tester_def quick_params_def)
  have u2: "[0..<2] = [0, 1]" by (simp add: upt_conv_Cons)
  show ?thesis
    by (simp add: repeatability_acquire_def Let_def capture_single_frame_def c cnt
          bench_world_def depth_reply_def DeviceStreamRead_def a w select_points_def
          u2 sleep_def record_point_def shape_def to_mm_def)
qed

text \<open>
  The aggregation is not the same for every per-point metric. In a run with two points
  whose samples are 10,10,10,10 and 10,14,10,14 the per-point ranges are 0 and 4; the eight
  aggregate values are 1, 1, 2 (mean, std, max of the standard deviations), 1, 1, 2 (of the
  deviations) and 2, 2 (mean and std of the ranges): the maximum of the ranges, 4, is not
  among them.
\<close>

theorem range_maximum_not_aggregated:
  "\<exists>r. fst (test_repeatability (connected_tester 1 quick_params)
         (bench_world 1 [depth_reply [[10, 10]], depth_reply [[10, 10]], depth_reply [[10, 14]],
                         depth_reply [[10, 10]], depth_reply [[10, 14]]]))
        = Inr (RepeatabilityDict r)
      \<and> map pt_depth_range (rp_point_analysis r) = [F 0, F 4]
      \<and> overall_values (rp_overall_stats r) = [F 1, F 1, F 2, F 1, F 1, F 2, F 2, F 2]
      \<and> F (Max (set [0, 4])) \<notin> set (overall_values (rp_overall_stats r))"
proof -
  let ?t = "connected_tester 1 quick_params"
  let ?w = "bench_world 1 [depth_reply [[10, 10]], depth_reply [[10, 10]], depth_reply [[10, 14]],
                     depth_reply [[10, 10]], depth_reply [[10, 14]]]"
  let ?cs = "[(0, 0), (0, 1)] :: (nat \<times> nat) list"
  let ?pd = "[[F 10, F 10, F 10, F 10], [F 10, F 14, F 10, F 14]]"
  obtain w' where acq: "repeatability_acquire ?t ?w = (Inr (?cs, 2, ?pd, 4), w')"
    using two_point_acquire by (cases "repeatability_acquire ?t ?w") simp
  have p0: "analyse_point ?cs ?pd 0 = Some (point_entry ?cs 0 [10, 10, 10, 10])"
    using analyse_point_F [of ?pd 0 "[10, 10, 10, 10]" ?cs] by (simp add: point_entry_def)
  have p1: "analyse_point ?cs ?pd 1 = Some (point_entry ?cs 1 [10, 14, 10, 14])"
    using analyse_point_F [of ?pd 1 "[10, 14, 10, 14]" ?cs] by (simp add: point_entry_def)
  let ?an = "[point_entry ?cs 0 [10, 10, 10, 10], point_entry ?cs 1 [10, 14, 10, 14]]"
  have u2: "[0..<2] = [0, 1]" by (simp add: upt_conv_Cons)
  have an: "analyse_points ?cs 2 ?pd = ?an"
    unfolding analyse_points_def u2 using p0 p1 by simp
  have ov: "overall_statistics ?an =
      Inr \<lparr>mean_depth_std = F (mean [0, 2]), std_depth_std = F (std_dev [0, 2]),
           max_depth_std = F (Max (set [0, 2])),
           mean_depth_deviation = F (mean [0, 2]), std_depth_deviation = F (std_dev [0, 2]),
           max_depth_deviation = F (Max (set [0, 2])),
           mean_depth_range = F (mean [0, 4]), std_depth_range = F (std_dev [0, 4])\<rparr>"
    by (rule overall_statistics_F) (simp_all add: point_entry_def stats_A stats_B)
  have cnt: "repeatability_test_count (params ?t) = 4"
    by (simp add: connected_tester_def quick_params_def)
  note e = test_repeatability_after_acquire [OF acq, unfolded Let_def an ov cnt stats_agg]
  show ?thesis
    using e
    by (simp add: then_do_def py_truediv_def point_entry_def stats_A stats_B overall_values_def)
qed

subsection \<open>Repeatability: when the procedure reports an error\<close>

lemma point_ids_map_filter:
  "map point_id (List.map_filter (analyse_point coords pd) xs)
     = filter (\<lambda>i. 2 \<le> length (pd ! i)) xs"
  if fin: "\<forall>i \<in> set xs. NaN \<notin> set (pd ! i)"
  using fin
proof (induction xs)
  case Nil
  show ?case by simp
next
  case (Cons i xs)
  show ?case
  proof (cases "2 \<le> length (pd ! i)")
    case False
    then have "analyse_point coords pd i = None" by (simp add: analyse_point_short)
    then show ?thesis using Cons False by simp
  next
    case True
    obtain rs where rs: "pd ! i = map F rs" using Cons.prems no_NaN_map_F by auto
    then have "2 \<le> length rs" using True by simp
    then have "analyse_point coords pd i = Some (point_entry coords i rs)"
      using analyse_point_F [OF rs] by (simp add: point_entry_def)
    then show ?thesis using Cons True by (simp add: point_entry_def)
  qed
qed

lemma repeatability_no_qualifying:
  assumes acq: "repeatability_acquire self w = (Inr (coords, target, pd, sc), w')"
      and none: "\<forall>i < target. length (pd ! i) < 2"
  shows "test_repeatability self w = (Inr (ErrorDict NotEnoughPointData), w')"
proof -
  have "List.map_filter (analyse_point coords pd) [0..<target] = []"
    using none by (simp add: List.map_filter_def analyse_point_short)
  then show ?thesis
    using test_repeatability_after_acquire [OF acq] by (simp add: analyse_points_def Let_def)
qed

lemma repeatability_full_result:
  assumes acq: "repeatability_acquire self w = (Inr (coords, target, pd, sc), w')"
      and q: "i0 < target" "2 \<le> length (pd ! i0)"
  shows "\<exists>r. test_repeatability self w = (Inr (RepeatabilityDict r), w')
           \<and> rp_raw_depth_data r = pd
           \<and> rp_target_points r = target
           \<and> rp_valid_points r = length (filter (\<lambda>i. 2 \<le> length (pd ! i)) [0..<target])
           \<and> map point_id (rp_point_analysis r) = filter (\<lambda>i. 2 \<le> length (pd ! i)) [0..<target]"
proof -
  obtain r where r: "test_repeatability self w = (Inr (RepeatabilityDict r), w')"
    using repeatability_statistics_general [OF acq q] by (elim exE conjE)
  have fin: "\<forall>i \<in> set [0..<target]. NaN \<notin> set (pd ! i)"
    using acquire_point_data [OF acq] by simp
  have ids: "map point_id (analyse_points coords target pd)
               = filter (\<lambda>i. 2 \<le> length (pd ! i)) [0..<target]"
    unfolding analyse_points_def by (rule point_ids_map_filter [OF fin])
  have len: "length (analyse_points coords target pd)
               = length (filter (\<lambda>i. 2 \<le> length (pd ! i)) [0..<target])"
    using ids by (metis length_map)
  have "rp_raw_depth_data r = pd \<and> rp_target_points r = target
        \<and> rp_valid_points r = length (analyse_points coords target pd)
        \<and> rp_point_analysis r = analyse_points coords target pd"
    using r test_repeatability_after_acquire [OF acq]
    by (auto simp: Let_def then_do_def split: if_splits sum.splits)
  then show ?thesis using r ids len by simp
qed

lemma test_repeatability_returns: "\<exists>d. fst (test_repeatability self w) = Inr d"
proof (cases "repeatability_acquire self w")
  case (Pair a w')
  show ?thesis
  proof (cases a)
    case (Inl msg)
    then show ?thesis using Pair by (simp add: test_repeatability_def)
  next
    case (Inr b)
    obtain coords target pd sc where b: "b = (coords, target, pd, sc)" by (cases b) auto
    have acq: "repeatability_acquire self w = (Inr (coords, target, pd, sc), w')"
      using Pair Inr b by simp
    show ?thesis
    proof (cases "\<forall>i < target. length (pd ! i) < 2")
      case True
      then show ?thesis using repeatability_no_qualifying [OF acq] by simp
    next
      case False
      then obtain i0 where "i0 < target" "2 \<le> length (pd ! i0)" by (auto simp: not_less)
      then show ?thesis using repeatability_full_result [OF acq] by fastforce
    qed
  qed
qed


text \<open>
  Claim C2, as the code has it. The repeatability procedure never raises, so the result
  \<open>run_test\<close> records for it always has \<open>success = True\<close> and no error message. What it
  returns is an error dictionary exactly when no selected point accumulated two samples
  (without a seed frame or a valid region no point is selected at all), and otherwise the
  full dictionary, in which \<open>point_analysis\<close> has one entry for each point with at least two
  samples and none for the others, and \<open>raw_depth_data\<close> holds the sample lists of all
  selected points.
\<close>

theorem repeatability_error_iff_no_qualifying_point:
  "(\<forall>msg w'. repeatability_acquire self w = (Inl msg, w') \<longrightarrow>
       test_repeatability self w = (Inr (ErrorDict msg), w'))
   \<and> (\<forall>coords target point_data success_count w'.
        repeatability_acquire self w = (Inr (coords, target, point_data, success_count), w') \<longrightarrow>
        (if \<forall>i < target. length (point_data ! i) < 2
         then test_repeatability self w = (Inr (ErrorDict NotEnoughPointData), w')
         else (\<exists>r. test_repeatability self w = (Inr (RepeatabilityDict r), w')
                 \<and> rp_raw_depth_data r = point_data
                 \<and> rp_target_points r = target
                 \<and> rp_valid_points r
                     = length (filter (\<lambda>i. 2 \<le> length (point_data ! i)) [0..<target])
                 \<and> map point_id (rp_point_analysis r)
                     = filter (\<lambda>i. 2 \<le> length (point_data ! i)) [0..<target])))
   \<and> success (fst (run_test test_repeatability name self w)) = True
   \<and> error_message (fst (run_test test_repeatability name self w)) = None"
proof (intro conjI allI impI)
  fix msg w'
  assume "repeatability_acquire self w = (Inl msg, w')"
  then show "test_repeatability self w = (Inr (ErrorDict msg), w')"
    by (simp add: test_repeatability_def)
next
  fix coords target point_data success_count w'
  assume acq: "repeatability_acquire self w = (Inr (coords, target, point_data, success_count), w')"
  show "if \<forall>i < target. length (point_data ! i) < 2
         then test_repeatability self w = (Inr (ErrorDict NotEnoughPointData), w')
         else (\<exists>r. test_repeatability self w = (Inr (RepeatabilityDict r), w')
                 \<and> rp_raw_depth_data r = point_data
                 \<and> rp_target_points r = target
                 \<and> rp_valid_points r
                     = length (filter (\<lambda>i. 2 \<le> length (point_data ! i)) [0..<target])
                 \<and> map point_id (rp_point_analysis r)
                     = filter (\<lambda>i. 2 \<le> length (point_data ! i)) [0..<target])"
  proof (cases "\<forall>i < target. length (point_data ! i) < 2")
    case True
    then show ?thesis using repeatability_no_qualifying [OF acq] by simp
  next
    case False
    then obtain i0 where i0: "i0 < target" "2 \<le> length (point_data ! i0)"
      by (auto simp: not_less)
    show ?thesis
      using repeatability_full_result [OF acq i0] by (simp only: False if_False)
  qed
next
  obtain d where d: "fst (test_repeatability self w) = Inr d"
    using test_repeatability_returns by blast
  show "success (fst (run_test test_repeatability name self w)) = True"
    "error_message (fst (run_test test_repeatability name self w)) = None"
    by (simp_all add: run_test_result d)
qed

lemma starved_acquire:
  "repeatability_acquire (connected_tester 1 quick_params) (bench_world 1 [depth_reply [[10]]])
   = (Inr ([(0, 0)], 1, [[]], 0), (bench_world 1 [])\<lparr>now := 24\<rparr>)"
proof -
  have w: "np_where (valid_mask [[10]]) = [(0, 0)]"
    by (simp add: np_where_def row_coords_def valid_mask_def valid_raw_def)
  have a: "np_any (valid_mask [[10]])"
    by (simp add: np_any_valid_mask valid_raw_def)
  have c: "is_connected (connected_tester 1 quick_params)"
    "depth_scale_factor (connected_tester 1 quick_params) = Some 1"
    by (simp_all add: connected_tester_def)
  have cnt: "nat (repeatability_test_count (params (connected_tester 1 quick_params)))
               = Suc (Suc (Suc (Suc 0)))"
    by (simp add: connected_tester_def quick_params_def)
  show ?thesis
    by (simp add: repeatability_acquire_def Let_def capture_single_frame_def c cnt
          bench_world_def depth_reply_def DeviceStreamRead_def a w select_points_def
          sleep_def)
qed

text \<open>
  A run in which the one selected point gets no sample at all (every capture after the seed
  frame times out): the procedure returns its error dictionary, and the recorded result is
  a success.
\<close>

theorem repeatability_error_is_recorded_as_success:
  "repeatability_acquire (connected_tester 1 quick_params) (bench_world 1 [depth_reply [[10]]])
     = (Inr ([(0, 0)], 1, [[]], 0), (bench_world 1 [])\<lparr>now := 24\<rparr>)
   \<and> length ([[]] ! 0 :: npfloat list) < 2
   \<and> success (fst (run_test test_repeatability RepeatabilityTest
                    (connected_tester 1 quick_params) (bench_world 1 [depth_reply [[10]]]))) = True
   \<and> error_message (fst (run_test test_repeatability RepeatabilityTest
                    (connected_tester 1 quick_params) (bench_world 1 [depth_reply [[10]]]))) = None
   \<and> data (fst (run_test test_repeatability RepeatabilityTest
                    (connected_tester 1 quick_params) (bench_world 1 [depth_reply [[10]]])))
       = ErrorDict NotEnoughPointData"
proof -
  have "test_repeatability (connected_tester 1 quick_params) (bench_world 1 [depth_reply [[10]]])
          = (Inr (ErrorDict NotEnoughPointData), (bench_world 1 [])\<lparr>now := 24\<rparr>)"
    by (rule repeatability_no_qualifying [OF starved_acquire]) simp
  then show ?thesis by (simp add: run_test_result starved_acquire)
qed

theorem repeatability_error_iff_no_qualifying_point_witness:
  "repeatability_acquire (connected_tester 1 quick_params) (bench_world 1 [])
     = (Inl NoInitialDepthImage, (bench_world 1 [])\<lparr>now := 5\<rparr>)
   \<and> test_repeatability (connected_tester 1 quick_params) (bench_world 1 [])
     = (Inr (ErrorDict NoInitialDepthImage), (bench_world 1 [])\<lparr>now := 5\<rparr>)
   \<and> fst (repeatability_acquire (connected_tester 1 quick_params)
       (bench_world 1 [depth_reply [[10, 5, 20]], depth_reply [[10, 5, 20]],
                       depth_reply [[10, 6, 20]], depth_reply [[10, 5, 21]],
                       depth_reply [[10, 6, 20]]]))
     = Inr ([(0, 0), (0, 1), (0, 2)], 3,
          [[F 10, F 10, F 10, F 10], [F 5, F 6, F 5, F 6], [F 20, F 20, F 21, F 20]], 4)
   \<and> (\<exists>r. fst (test_repeatability (connected_tester 1 quick_params)
           (bench_world 1 [depth_reply [[10, 5, 20]], depth_reply [[10, 5, 20]],
                           depth_reply [[10, 6, 20]], depth_reply [[10, 5, 21]],
                           depth_reply [[10, 6, 20]]])) = Inr (RepeatabilityDict r)
        \<and> rp_valid_points r = 3
        \<and> map point_id (rp_point_analysis r) = [0, 1, 2]
        \<and> rp_raw_depth_data r =
            [[F 10, F 10, F 10, F 10], [F 5, F 6, F 5, F 6], [F 20, F 20, F 21, F 20]])"
proof -
  let ?t = "connected_tester 1 quick_params"
  let ?w = "bench_world 1 [depth_reply [[10, 5, 20]], depth_reply [[10, 5, 20]],
                     depth_reply [[10, 6, 20]], depth_reply [[10, 5, 21]],
                     depth_reply [[10, 6, 20]]]"
  let ?cs = "[(0, 0), (0, 1), (0, 2)] :: (nat \<times> nat) list"
  let ?pd = "[[F 10, F 10, F 10, F 10], [F 5, F 6, F 5, F 6], [F 20, F 20, F 21, F 20]]"
  have a0: "repeatability_acquire ?t (bench_world 1 [])
              = (Inl NoInitialDepthImage, (bench_world 1 [])\<lparr>now := 5\<rparr>)"
    by (simp add: repeatability_acquire_def Let_def capture_timeout)
  have t0: "test_repeatability ?t (bench_world 1 [])
              = (Inr (ErrorDict NoInitialDepthImage), (bench_world 1 [])\<lparr>now := 5\<rparr>)"
    using repeatability_error_iff_no_qualifying_point [of ?t "bench_world 1 []"] a0 by blast
  obtain w' where acq: "repeatability_acquire ?t ?w = (Inr (?cs, 3, ?pd, 4), w')"
    using scenario_acquire by (cases "repeatability_acquire ?t ?w") simp
  have u3: "[0..<3] = [0, 1, 2]" by (simp add: upt_conv_Cons)
  have nq: "\<not> (\<forall>i < 3. length (?pd ! i) < 2)"
    by (simp add: not_less) (rule exI [of _ 0], simp)
  have "if \<forall>i < 3. length (?pd ! i) < 2
         then test_repeatability ?t ?w = (Inr (ErrorDict NotEnoughPointData), w')
         else (\<exists>r. test_repeatability ?t ?w = (Inr (RepeatabilityDict r), w')
                 \<and> rp_raw_depth_data r = ?pd
                 \<and> rp_target_points r = 3
                 \<and> rp_valid_points r = length (filter (\<lambda>i. 2 \<le> length (?pd ! i)) [0..<3])
                 \<and> map point_id (rp_point_analysis r)
                     = filter (\<lambda>i. 2 \<le> length (?pd ! i)) [0..<3])"
    using repeatability_error_iff_no_qualifying_point [of ?t ?w] acq by blast
  then obtain r where r: "test_repeatability ?t ?w = (Inr (RepeatabilityDict r), w')"
    "rp_raw_depth_data r = ?pd"
    "rp_valid_points r = length (filter (\<lambda>i. 2 \<le> length (?pd ! i)) [0..<3])"
    "map point_id (rp_point_analysis r) = filter (\<lambda>i. 2 \<le> length (?pd ! i)) [0..<3]"
    using nq by (simp only: if_False) (elim exE conjE)
  have f: "filter (\<lambda>i. 2 \<le> length (?pd ! i)) [0..<3] = [0, 1, 2]"
    unfolding u3 by simp
  have "\<exists>r. fst (test_repeatability ?t ?w) = Inr (RepeatabilityDict r)
        \<and> rp_valid_points r = 3
        \<and> map point_id (rp_point_analysis r) = [0, 1, 2]
        \<and> rp_raw_depth_data r = ?pd"
    using r f by (intro exI [of _ r]) simp
  then show ?thesis using a0 t0 scenario_acquire by simp
qed

end
